theory Spec2Isabelle
  imports Complex_Main
begin

section \<open>Python floats\<close>

text \<open>
  The script computes with Python floats (IEEE binary64, round to nearest, ties to even).
  A float is modelled by the rational it denotes, or one of the three special values.
  The two zeros are identified: Python compares them equal and raises on a division by
  either, so no operation of the script tells them apart.
\<close>

datatype pyfloat = Fin rat | PInf | NInf | NaN

fun bits :: "nat \<Rightarrow> nat" where
  "bits n = (if n = 0 then 0 else Suc (bits (n div 2)))"

declare bits.simps [simp del]

definition pow2 :: "int \<Rightarrow> rat" where
  "pow2 e = (if 0 \<le> e then 2 ^ nat e else 1 / 2 ^ nat (- e))"

text \<open>The binary exponent of a positive rational: the \<open>e\<close> with \<open>2^e \<le> a < 2^(e+1)\<close>.\<close>

definition ilog2 :: "rat \<Rightarrow> int" where
  "ilog2 a = (if 1 \<le> a then int (bits (nat \<lfloor>a\<rfloor>)) - 1
              else - int (bits (nat (\<lceil>1 / a\<rceil> - 1))))"

definition round_half_even :: "rat \<Rightarrow> int" where
  "round_half_even x =
     (let n = \<lfloor>x\<rfloor>; f = x - of_int n
      in if f < 1 / 2 then n else if 1 / 2 < f then n + 1
         else if even n then n else n + 1)"

text \<open>
  Rounding of an exact result to binary64: 53 significant bits, the exponent clamped at
  \<open>-1022\<close> (gradual underflow). The result overflows to an infinity when its exponent
  passes \<open>1023\<close>, also when the significand rounds up to \<open>2^53\<close> at that exponent.
\<close>

definition round64 :: "rat \<Rightarrow> pyfloat" where
  "round64 q =
     (if q = 0 then Fin 0
      else let a = \<bar>q\<bar>;
               e = max (ilog2 a) (- 1022);
               u = pow2 (e - 52);
               m = round_half_even (a / u)
           in if 1023 < e \<or> (e = 1023 \<and> 2 ^ 53 \<le> m) then (if 0 < q then PInf else NInf)
              else Fin (if 0 < q then of_int m * u else - (of_int m * u)))"

fun fneg :: "pyfloat \<Rightarrow> pyfloat" where
  "fneg (Fin a) = Fin (- a)"
| "fneg PInf = NInf"
| "fneg NInf = PInf"
| "fneg NaN = NaN"

fun fadd :: "pyfloat \<Rightarrow> pyfloat \<Rightarrow> pyfloat" where
  "fadd NaN _ = NaN"
| "fadd _ NaN = NaN"
| "fadd PInf NInf = NaN"
| "fadd NInf PInf = NaN"
| "fadd PInf _ = PInf"
| "fadd NInf _ = NInf"
| "fadd _ PInf = PInf"
| "fadd _ NInf = NInf"
| "fadd (Fin a) (Fin b) = round64 (a + b)"

definition fsub :: "pyfloat \<Rightarrow> pyfloat \<Rightarrow> pyfloat" where
  "fsub x y = fadd x (fneg y)"

text \<open>The sign of a float: \<open>1\<close>, \<open>-1\<close>, or \<open>0\<close> for a zero and for NaN.\<close>

fun fsign :: "pyfloat \<Rightarrow> int" where
  "fsign (Fin a) = (if 0 < a then 1 else if a < 0 then - 1 else 0)"
| "fsign PInf = 1"
| "fsign NInf = - 1"
| "fsign NaN = 0"

definition inf_of_sign :: "int \<Rightarrow> pyfloat" where
  "inf_of_sign s = (if s = 0 then NaN else if 0 < s then PInf else NInf)"

fun fmul :: "pyfloat \<Rightarrow> pyfloat \<Rightarrow> pyfloat" where
  "fmul NaN _ = NaN"
| "fmul _ NaN = NaN"
| "fmul (Fin a) (Fin b) = round64 (a * b)"
| "fmul x y = inf_of_sign (fsign x * fsign y)"

text \<open>
  The quotient of two floats when the divisor is not zero (the zero case is an
  exception in Python, see \<open>py_truediv\<close>).
\<close>

fun fquot :: "pyfloat \<Rightarrow> pyfloat \<Rightarrow> pyfloat" where
  "fquot NaN _ = NaN"
| "fquot _ NaN = NaN"
| "fquot (Fin a) (Fin b) = round64 (a / b)"
| "fquot (Fin a) _ = Fin 0"
| "fquot x (Fin b) = inf_of_sign (fsign x * fsign (Fin b))"
| "fquot _ _ = NaN"

fun fless :: "pyfloat \<Rightarrow> pyfloat \<Rightarrow> bool" where
  "fless (Fin a) (Fin b) = (a < b)"
| "fless NInf (Fin _) = True"
| "fless NInf PInf = True"
| "fless (Fin _) PInf = True"
| "fless _ _ = False"

definition fle :: "pyfloat \<Rightarrow> pyfloat \<Rightarrow> bool" where
  "fle x y = (x \<noteq> NaN \<and> y \<noteq> NaN \<and> (fless x y \<or> x = y))"

definition fge :: "pyfloat \<Rightarrow> pyfloat \<Rightarrow> bool" where
  "fge x y = fle y x"

definition fgt :: "pyfloat \<Rightarrow> pyfloat \<Rightarrow> bool" where
  "fgt x y = fless y x"

section \<open>Python values and exceptions\<close>

datatype py_error =
    KeyError | TypeError | ValueError | ZeroDivisionError
  | AttributeError | IndexError | OverflowError
  | FetchFailed int      \<comment> \<open>\<open>Exception("Failed to fetch data: ...")\<close>\<close>
  | UnexpectedFormat     \<comment> \<open>\<open>Exception("Unexpected response format. ...")\<close>\<close>

text \<open>
  What \<open>response.json()\<close> yields: the Python value of a JSON text. A dict is the list
  of its items, whose keys are distinct; a number is an int or a float, as Python's
  parser makes it. A body that is not JSON is outside the model.
\<close>

datatype json =
    JNull | JBool bool | JInt int | JFloat pyfloat | JStr string
  | JArr "json list" | JObj "(string \<times> json) list"

text \<open>\<open>a / b\<close> on floats raises on a zero divisor, whatever the dividend.\<close>

definition py_truediv :: "pyfloat \<Rightarrow> pyfloat \<Rightarrow> py_error + pyfloat" where
  "py_truediv x y = (if y = Fin 0 then Inl ZeroDivisionError else Inr (fquot x y))"

text \<open>\<open>max(a, b)\<close> keeps its first argument unless the second is greater.\<close>

definition py_max :: "pyfloat \<Rightarrow> pyfloat \<Rightarrow> pyfloat" where
  "py_max x y = (if fgt y x then y else x)"

text \<open>
  \<open>float(v)\<close>. The conversion of a string is Python's own parser, taken as the
  parameter \<open>pf\<close> (\<open>None\<close> is its ValueError).
\<close>

fun py_float :: "(string \<Rightarrow> pyfloat option) \<Rightarrow> json \<Rightarrow> py_error + pyfloat" where
  "py_float pf (JInt n) =
     (case round64 (of_int n) of Fin q \<Rightarrow> Inr (Fin q) | _ \<Rightarrow> Inl OverflowError)"
| "py_float pf (JFloat x) = Inr x"
| "py_float pf (JBool b) = Inr (Fin (if b then 1 else 0))"
| "py_float pf (JStr s) = (case pf s of None \<Rightarrow> Inl ValueError | Some x \<Rightarrow> Inr x)"
| "py_float pf JNull = Inl TypeError"
| "py_float pf (JArr _) = Inl TypeError"
| "py_float pf (JObj _) = Inl TypeError"

text \<open>\<open>v.get(k, d)\<close>: only a dict has the method.\<close>

fun py_get :: "json \<Rightarrow> string \<Rightarrow> json \<Rightarrow> py_error + json" where
  "py_get (JObj kvs) k d = Inr (case map_of kvs k of None \<Rightarrow> d | Some v \<Rightarrow> v)"
| "py_get _ k d = Inl AttributeError"

text \<open>\<open>v[k]\<close> with a string key.\<close>

fun py_item :: "json \<Rightarrow> string \<Rightarrow> py_error + json" where
  "py_item (JObj kvs) k = (case map_of kvs k of None \<Rightarrow> Inl KeyError | Some v \<Rightarrow> Inr v)"
| "py_item _ k = Inl TypeError"

text \<open>\<open>v[0]\<close>. The keys of a dict that comes from JSON are strings, so \<open>0\<close> is never one.\<close>

fun py_item0 :: "json \<Rightarrow> py_error + json" where
  "py_item0 (JArr []) = Inl IndexError"
| "py_item0 (JArr (x # _)) = Inr x"
| "py_item0 (JStr []) = Inl IndexError"
| "py_item0 (JStr (c # _)) = Inr (JStr [c])"
| "py_item0 (JObj _) = Inl KeyError"
| "py_item0 _ = Inl TypeError"

text \<open>Truth value of a Python value (\<open>not v\<close> is its negation).\<close>

fun py_truthy :: "json \<Rightarrow> bool" where
  "py_truthy JNull = False"
| "py_truthy (JBool b) = b"
| "py_truthy (JInt n) = (n \<noteq> 0)"
| "py_truthy (JFloat x) = (x \<noteq> Fin 0)"
| "py_truthy (JStr s) = (s \<noteq> [])"
| "py_truthy (JArr xs) = (xs \<noteq> [])"
| "py_truthy (JObj kvs) = (kvs \<noteq> [])"

fun starts_with :: "string \<Rightarrow> string \<Rightarrow> bool" where
  "starts_with [] _ = True"
| "starts_with (k # ks) [] = False"
| "starts_with (k # ks) (c # cs) = (k = c \<and> starts_with ks cs)"

fun substring_of :: "string \<Rightarrow> string \<Rightarrow> bool" where
  "substring_of k [] = (k = [])"
| "substring_of k (c # cs) = (starts_with k (c # cs) \<or> substring_of k cs)"

text \<open>\<open>k in v\<close> for a string \<open>k\<close>: a key of a dict, an element of a list, a substring.\<close>

fun py_contains :: "string \<Rightarrow> json \<Rightarrow> py_error + bool" where
  "py_contains k (JObj kvs) = Inr (map_of kvs k \<noteq> None)"
| "py_contains k (JArr xs) = Inr (JStr k \<in> set xs)"
| "py_contains k (JStr s) = Inr (substring_of k s)"
| "py_contains k _ = Inl TypeError"

section \<open>The environment of a run\<close>

text \<open>
  The two addresses that the script requests: the list of tokens, and the details of
  the token whose address fills the template.
\<close>

datatype url = TokenList | TokenDetails json

definition TOKEN_LIST_URL :: url where
  "TOKEN_LIST_URL = TokenList"

definition TOKEN_DETAILS_URL :: "json \<Rightarrow> url" where
  "TOKEN_DETAILS_URL tokenAddresses = TokenDetails tokenAddresses"

definition MONITOR_DURATION :: nat where
  "MONITOR_DURATION = 60"

definition FETCH_INTERVAL :: nat where
  "FETCH_INTERVAL = 10"

definition INITIAL_BALANCE :: pyfloat where
  "INITIAL_BALANCE = Fin 200"

definition SELL_DROP_THRESHOLD :: pyfloat where
  "SELL_DROP_THRESHOLD = round64 (95 / 100)"

definition SELL_GAIN_THRESHOLD :: pyfloat where
  "SELL_GAIN_THRESHOLD = round64 (110 / 100)"

record response =
  status :: int
  body :: json

text \<open>
  The world outside the script: the answer of the server to the \<open>n\<close>-th request of the
  run, Python's string-to-float parser, and the random source of \<open>random.sample\<close>
  (the positions it draws from a population of a given size).
\<close>

record env =
  session :: "nat \<Rightarrow> url \<Rightarrow> response"
  str_float :: "string \<Rightarrow> pyfloat option"
  draw :: "nat \<Rightarrow> nat \<Rightarrow> nat list"

text \<open>The lines that the script prints, with the values they show.\<close>

datatype event =
    NoPairsData json
  | McapFdv pyfloat pyfloat
  | ErrorEvaluating json py_error
  | Monitoring json pyfloat
  | Bought json pyfloat
  | Sold json pyfloat pyfloat bool
  | ErrorMonitoring py_error
  | NoValidTokens
  | EvaluatedHeader
  | EvaluatedLine json json pyfloat
  | BestSelected json json

text \<open>
  The state of a run: the number of requests made, the lines printed, and the seconds
  spent in \<open>asyncio.sleep\<close>.
\<close>

record pstate =
  reqs :: nat
  out :: "event list"
  slept :: nat

definition emit :: "event \<Rightarrow> pstate \<Rightarrow> pstate" where
  "emit ev st = st\<lparr>out := out st @ [ev]\<rparr>"

definition start :: pstate where
  "start = \<lparr>reqs = 0, out = [], slept = 0\<rparr>"

section \<open>fetch_data\<close>

definition fetch_data :: "response \<Rightarrow> py_error + json" where
  "fetch_data r = (if status r \<noteq> 200 then Inl (FetchFailed (status r)) else Inr (body r))"

section \<open>evaluate_token\<close>

text \<open>The numbers read from the first pair of a token, in the order the script reads them.\<close>

record snapshot =
  liquidity :: pyfloat
  volume_24h :: pyfloat
  buys_24h :: pyfloat
  sells_24h :: pyfloat
  buy_sell_ratio :: pyfloat
  fdv :: pyfloat
  price_change_24h :: pyfloat
  market_cap :: pyfloat

record evaluated =
  tokenAddress :: json
  tokenName :: json
  score :: pyfloat

definition bindE :: "py_error + 'a \<Rightarrow> ('a \<Rightarrow> py_error + 'b) \<Rightarrow> py_error + 'b" where
  "bindE m f = (case m of Inl e \<Rightarrow> Inl e | Inr v \<Rightarrow> f v)"

text \<open>\<open>float(v.get(outer, {}).get(inner, d))\<close>\<close>

definition nested_float ::
  "(string \<Rightarrow> pyfloat option) \<Rightarrow> json \<Rightarrow> string \<Rightarrow> string \<Rightarrow> json \<Rightarrow> py_error + pyfloat" where
  "nested_float pf v outer inner d =
     bindE (py_get v outer (JObj [])) (\<lambda>w. bindE (py_get w inner d) (py_float pf))"

text \<open>
  Lines 57 to 73 of the source. The literals \<open>0\<close> and \<open>1\<close> of the defaults are Python
  ints; the default of \<open>marketCap\<close> is the float \<open>fdv\<close> just computed.
\<close>

definition extract_fields :: "(string \<Rightarrow> pyfloat option) \<Rightarrow> json \<Rightarrow> py_error + snapshot" where
  "extract_fields pf pair =
     bindE (nested_float pf pair ''liquidity'' ''usd'' (JInt 0)) (\<lambda>liq.
     bindE (nested_float pf pair ''volume'' ''h24'' (JInt 0)) (\<lambda>vol.
     bindE (py_get pair ''txns'' (JObj [])) (\<lambda>t.
     bindE (py_get t ''h24'' (JObj [])) (\<lambda>txns.
     bindE (bindE (py_get txns ''buys'' (JInt 0)) (py_float pf)) (\<lambda>buys.
     bindE (bindE (py_get txns ''sells'' (JInt 0)) (py_float pf)) (\<lambda>sells.
     bindE (py_truediv buys (py_max sells (Fin 1))) (\<lambda>ratio.
     bindE (bindE (py_get pair ''fdv'' (JInt 1)) (py_float pf)) (\<lambda>fdv_v.
     bindE (nested_float pf pair ''priceChange'' ''h24'' (JInt 0)) (\<lambda>chg.
     bindE (bindE (py_get pair ''marketCap'' (JFloat fdv_v)) (py_float pf)) (\<lambda>mcap.
       Inr \<lparr>liquidity = liq, volume_24h = vol, buys_24h = buys, sells_24h = sells,
            buy_sell_ratio = ratio, fdv = fdv_v, price_change_24h = chg,
            market_cap = mcap\<rparr>))))))))))"

text \<open>Lines 77 to 82: the weighted sum, normalised by \<open>max(fdv, 1)\<close>.\<close>

definition compute_score :: "snapshot \<Rightarrow> py_error + pyfloat" where
  "compute_score s =
     py_truediv
       (fadd (fadd (fadd (fmul (liquidity s) (round64 (4 / 10)))
                         (fmul (volume_24h s) (round64 (3 / 10))))
                   (fmul (buy_sell_ratio s) (round64 (2 / 10))))
             (fmul (price_change_24h s) (round64 (1 / 10))))
       (py_max (fdv s) (Fin 1))"

text \<open>\<open>"pairs" not in token_data or not token_data["pairs"]\<close>\<close>

definition no_pairs :: "json \<Rightarrow> py_error + bool" where
  "no_pairs token_data =
     bindE (py_contains ''pairs'' token_data) (\<lambda>c.
       if \<not> c then Inr True
       else bindE (py_item token_data ''pairs'') (\<lambda>p. Inr (\<not> py_truthy p)))"

text \<open>\<open>token_data["pairs"][0]\<close>\<close>

definition first_pair :: "json \<Rightarrow> py_error + json" where
  "first_pair token_data = bindE (py_item token_data ''pairs'') py_item0"

text \<open>The dict that is returned (lines 88 to 92).\<close>

definition result_dict :: "json \<Rightarrow> json \<Rightarrow> pyfloat \<Rightarrow> py_error + evaluated" where
  "result_dict token token_data sc =
     bindE (py_item token ''tokenAddress'') (\<lambda>a.
     bindE (bindE (bindE (first_pair token_data) (\<lambda>p. py_item p ''baseToken''))
                  (\<lambda>b. py_item b ''symbol'')) (\<lambda>n.
       Inr \<lparr>tokenAddress = a, tokenName = n, score = sc\<rparr>))"

text \<open>
  The body of the \<open>try\<close>. An exception leaves with the state reached so far: the request
  made and the lines printed stay. The store \<open>token["score"] = float(score)\<close> changes
  only the sampled token, a dict at that point, which nothing reads afterwards.
\<close>

definition evaluate_try :: "env \<Rightarrow> json \<Rightarrow> pstate \<Rightarrow> (py_error + evaluated option) \<times> pstate" where
  "evaluate_try ev token st =
     (case py_item token ''tokenAddress'' of
        Inl e \<Rightarrow> (Inl e, st)
      | Inr addr \<Rightarrow>
          let st1 = st\<lparr>reqs := Suc (reqs st)\<rparr> in
          (case fetch_data (session ev (reqs st) (TOKEN_DETAILS_URL addr)) of
             Inl e \<Rightarrow> (Inl e, st1)
           | Inr token_data \<Rightarrow>
               (case no_pairs token_data of
                  Inl e \<Rightarrow> (Inl e, st1)
                | Inr True \<Rightarrow>
                    (case py_get token ''tokenAddress'' JNull of
                       Inl e \<Rightarrow> (Inl e, st1)
                     | Inr a \<Rightarrow> (Inr None, emit (NoPairsData a) st1))
                | Inr False \<Rightarrow>
                    (case bindE (first_pair token_data) (extract_fields (str_float ev)) of
                       Inl e \<Rightarrow> (Inl e, st1)
                     | Inr s \<Rightarrow>
                         let st2 = emit (McapFdv (market_cap s) (fdv s)) st1 in
                         (case bindE (compute_score s) (result_dict token token_data) of
                            Inl e \<Rightarrow> (Inl e, st2)
                          | Inr r \<Rightarrow> (Inr (Some r), st2))))))"

text \<open>\<open>except (KeyError, ZeroDivisionError, TypeError, ValueError)\<close>\<close>

definition caught :: "py_error \<Rightarrow> bool" where
  "caught e = (e = KeyError \<or> e = ZeroDivisionError \<or> e = TypeError \<or> e = ValueError)"

text \<open>
  The handler prints \<open>token.get('tokenAddress')\<close>, which is itself an attribute access
  on the token, and returns None.
\<close>

definition evaluate_token :: "env \<Rightarrow> json \<Rightarrow> pstate \<Rightarrow> (py_error + evaluated option) \<times> pstate" where
  "evaluate_token ev token st =
     (case evaluate_try ev token st of
        (Inr r, st') \<Rightarrow> (Inr r, st')
      | (Inl e, st') \<Rightarrow>
          if caught e then
            (case py_get token ''tokenAddress'' JNull of
               Inl e' \<Rightarrow> (Inl e', st')
             | Inr a \<Rightarrow> (Inr None, emit (ErrorEvaluating a e) st'))
          else (Inl e, st'))"

section \<open>get_random_tokens\<close>

text \<open>
  \<open>random.sample(population, k)\<close> is Python's library function: it raises ValueError
  when the sample is larger than the population, and otherwise returns the elements at
  \<open>k\<close> positions drawn by the random source \<open>dr\<close>. Its contract, that the positions
  drawn are distinct and inside the population, is \<open>draws_ok\<close>.
\<close>

definition random_sample ::
  "(nat \<Rightarrow> nat \<Rightarrow> nat list) \<Rightarrow> json list \<Rightarrow> nat \<Rightarrow> py_error + json list" where
  "random_sample dr population k =
     (if length population < k then Inl ValueError
      else Inr (map (\<lambda>i. population ! i) (dr (length population) k)))"

definition draws_ok :: "(nat \<Rightarrow> nat \<Rightarrow> nat list) \<Rightarrow> bool" where
  "draws_ok dr =
     (\<forall>n k. k \<le> n \<longrightarrow> length (dr n k) = k \<and> distinct (dr n k) \<and> (\<forall>i \<in> set (dr n k). i < n))"

text \<open>Lines 32 to 36: the check of the body and the sample.\<close>

definition sample_tokens :: "(nat \<Rightarrow> nat \<Rightarrow> nat list) \<Rightarrow> json \<Rightarrow> py_error + json list" where
  "sample_tokens dr data =
     (case data of
        JArr xs \<Rightarrow> random_sample dr xs (min (length xs) 15)
      | _ \<Rightarrow> Inl UnexpectedFormat)"

definition get_random_tokens :: "env \<Rightarrow> pstate \<Rightarrow> (py_error + json list) \<times> pstate" where
  "get_random_tokens ev st =
     (let st1 = st\<lparr>reqs := Suc (reqs st)\<rparr> in
      case fetch_data (session ev (reqs st) TOKEN_LIST_URL) of
        Inl e \<Rightarrow> (Inl e, st1)
      | Inr data \<Rightarrow> (sample_tokens (draw ev) data, st1))"

section \<open>The selection of the best token\<close>

text \<open>
  \<open>max(evaluated_tokens, key=lambda x: x["score"])\<close>: Python's \<open>max\<close> starts from the
  first element and replaces the running best only by an element whose key is greater;
  on an empty list it raises ValueError.
\<close>

fun max_loop :: "evaluated \<Rightarrow> evaluated list \<Rightarrow> evaluated" where
  "max_loop best [] = best"
| "max_loop best (x # xs) = max_loop (if fgt (score x) (score best) then x else best) xs"

definition max_by_score :: "evaluated list \<Rightarrow> py_error + evaluated" where
  "max_by_score xs = (case xs of [] \<Rightarrow> Inl ValueError | x # rest \<Rightarrow> Inr (max_loop x rest))"

section \<open>monitor_token\<close>

record position =
  buy_price :: "pyfloat option"
  purchased_amount :: pyfloat
  current_balance :: pyfloat

text \<open>
  The locals at the start of \<open>monitor_token\<close>. The ints \<open>0\<close> and \<open>200\<close> stand for
  themselves as floats: every use of them is in float arithmetic.
\<close>

definition initial_position :: position where
  "initial_position =
     \<lparr>buy_price = None, purchased_amount = Fin 0, current_balance = INITIAL_BALANCE\<rparr>"

text \<open>
  Lines 120 to 123. The assignment to \<open>buy_price\<close> comes before the division, so it
  stays when the division raises. The result is the buy price in force.
\<close>

definition initial_buy ::
  "json \<Rightarrow> pyfloat \<Rightarrow> position \<Rightarrow> pstate \<Rightarrow> (py_error + pyfloat) \<times> position \<times> pstate" where
  "initial_buy token_name price pos st =
     (case buy_price pos of
        None \<Rightarrow>
          (let pos1 = pos\<lparr>buy_price := Some price\<rparr> in
           case py_truediv (current_balance pos1) price of
             Inl e \<Rightarrow> (Inl e, pos1, st)
           | Inr amount \<Rightarrow>
               (Inr price, pos1\<lparr>purchased_amount := amount\<rparr>, emit (Bought token_name price) st))
      | Some bp \<Rightarrow> (Inr bp, pos, st))"

text \<open>The condition of line 126.\<close>

definition sell_now :: "pyfloat \<Rightarrow> pyfloat \<Rightarrow> bool" where
  "sell_now price bp =
     (fle price (fmul bp SELL_DROP_THRESHOLD) \<or> fge price (fmul bp SELL_GAIN_THRESHOLD))"

text \<open>
  Lines 117 to 134, once the price is known: the line printed, the initial buy, and
  the sale or the sleep. \<open>Inr True\<close> is the \<open>return\<close> after a sale, \<open>Inr False\<close> the end
  of the pass after the sleep.
\<close>

definition after_price ::
  "json \<Rightarrow> pyfloat \<Rightarrow> position \<Rightarrow> pstate \<Rightarrow> (py_error + bool) \<times> position \<times> pstate" where
  "after_price token_name price pos st1 =
     (case initial_buy token_name price pos (emit (Monitoring token_name price) st1) of
        (Inl e, pos2, st2) \<Rightarrow> (Inl e, pos2, st2)
      | (Inr bp, pos2, st2) \<Rightarrow>
          if sell_now price bp then
            (let profit = fmul (fsub price bp) (purchased_amount pos2);
                 pos3 = pos2\<lparr>current_balance := fadd (current_balance pos2) profit\<rparr>
             in (Inr True, pos3,
                 emit (Sold token_name price profit (fless profit (Fin 0))) st2))
          else (Inr False, pos2, st2\<lparr>slept := slept st2 + FETCH_INTERVAL\<rparr>))"

text \<open>One pass through the body of the \<open>try\<close> (lines 109 to 134).\<close>

definition monitor_try ::
  "env \<Rightarrow> json \<Rightarrow> position \<Rightarrow> pstate \<Rightarrow> (py_error + bool) \<times> position \<times> pstate" where
  "monitor_try ev token pos st =
     (case py_item token ''tokenAddress'' of
        Inl e \<Rightarrow> (Inl e, pos, st)
      | Inr addr \<Rightarrow>
          let st1 = st\<lparr>reqs := Suc (reqs st)\<rparr> in
          (case fetch_data (session ev (reqs st) (TOKEN_DETAILS_URL addr)) of
             Inl e \<Rightarrow> (Inl e, pos, st1)
           | Inr token_data \<Rightarrow>
               (case bindE (bindE (first_pair token_data) (\<lambda>p. py_item p ''baseToken''))
                           (\<lambda>b. py_item b ''symbol'') of
                  Inl e \<Rightarrow> (Inl e, pos, st1)
                | Inr token_name \<Rightarrow>
                    (case bindE (bindE (first_pair token_data) (\<lambda>p. py_item p ''priceUsd''))
                                (py_float (str_float ev)) of
                       Inl e \<Rightarrow> (Inl e, pos, st1)
                     | Inr price \<Rightarrow> after_price token_name price pos st1))))"

datatype 'a flow = Again 'a | Return 'a

text \<open>One pass through the loop: \<open>except Exception\<close> catches every exception of the body.\<close>

definition monitor_step :: "env \<Rightarrow> json \<Rightarrow> position \<times> pstate \<Rightarrow> (position \<times> pstate) flow" where
  "monitor_step ev token ps =
     (case monitor_try ev token (fst ps) (snd ps) of
        (Inl e, pos', st') \<Rightarrow> Return (pos', emit (ErrorMonitoring e) st')
      | (Inr True, pos', st') \<Rightarrow> Return (pos', st')
      | (Inr False, pos', st') \<Rightarrow> Again (pos', st'))"

text \<open>
  The \<open>while True\<close> loop, run for at most \<open>n\<close> passes: \<open>Return\<close> when the function has
  returned, \<open>Again\<close> with the state reached when it is still looping.
\<close>

fun monitor_loop :: "nat \<Rightarrow> env \<Rightarrow> json \<Rightarrow> position \<times> pstate \<Rightarrow> (position \<times> pstate) flow" where
  "monitor_loop 0 ev token ps = Again ps"
| "monitor_loop (Suc n) ev token ps =
     (case monitor_step ev token ps of
        Return r \<Rightarrow> Return r
      | Again ps' \<Rightarrow> monitor_loop n ev token ps')"

text \<open>\<open>None\<close>: the function has not returned within \<open>n\<close> passes.\<close>

definition monitor_token :: "nat \<Rightarrow> env \<Rightarrow> json \<Rightarrow> pstate \<Rightarrow> (position \<times> pstate) option" where
  "monitor_token n ev token st =
     (case monitor_loop n ev token (initial_position, st) of
        Return r \<Rightarrow> Some r
      | Again _ \<Rightarrow> None)"

section \<open>main\<close>

text \<open>The loop of lines 146 to 150; a dict with three keys is always true.\<close>

fun evaluate_all ::
  "env \<Rightarrow> json list \<Rightarrow> evaluated list \<Rightarrow> pstate \<Rightarrow> (py_error + evaluated list) \<times> pstate" where
  "evaluate_all ev [] evaluated_tokens st = (Inr evaluated_tokens, st)"
| "evaluate_all ev (token # rest) evaluated_tokens st =
     (case evaluate_token ev token st of
        (Inl e, st') \<Rightarrow> (Inl e, st')
      | (Inr None, st') \<Rightarrow> evaluate_all ev rest evaluated_tokens st'
      | (Inr (Some r), st') \<Rightarrow> evaluate_all ev rest (evaluated_tokens @ [r]) st')"

definition dict_of :: "evaluated \<Rightarrow> json" where
  "dict_of r =
     JObj [(''tokenAddress'', tokenAddress r), (''tokenName'', tokenName r),
           (''score'', JFloat (score r))]"

definition print_evaluated :: "evaluated list \<Rightarrow> pstate \<Rightarrow> pstate" where
  "print_evaluated rs st =
     foldl (\<lambda>s r. emit (EvaluatedLine (tokenAddress r) (tokenName r) (score r)) s)
       (emit EvaluatedHeader st) rs"

text \<open>
  A run of the script with at most \<open>n\<close> passes of the monitor loop. \<open>None\<close>: the monitor
  was still looping; \<open>Inl e\<close>: the exception \<open>e\<close> left \<open>main\<close>.
\<close>

definition main :: "nat \<Rightarrow> env \<Rightarrow> ((py_error + unit) \<times> pstate) option" where
  "main n ev =
     (case get_random_tokens ev start of
        (Inl e, st) \<Rightarrow> Some (Inl e, st)
      | (Inr random_tokens, st) \<Rightarrow>
          (case evaluate_all ev random_tokens [] st of
             (Inl e, st1) \<Rightarrow> Some (Inl e, st1)
           | (Inr evaluated_tokens, st1) \<Rightarrow>
               if evaluated_tokens = [] then Some (Inr (), emit NoValidTokens st1)
               else
                 (case max_by_score evaluated_tokens of
                    Inl e \<Rightarrow> Some (Inl e, print_evaluated evaluated_tokens st1)
                  | Inr best_token \<Rightarrow>
                      (case monitor_token n ev (dict_of best_token)
                              (emit (BestSelected (tokenName best_token) (tokenAddress best_token))
                                 (print_evaluated evaluated_tokens st1)) of
                         None \<Rightarrow> None
                       | Some (pos, st2) \<Rightarrow> Some (Inr (), st2)))))"

section \<open>The statements of the specification\<close>

text \<open>
  Where a value sits in a JSON document: found at the end of a path of keys, absent
  because a key of the path is missing, or not reachable because a value on the way is
  not an object.
\<close>

datatype lookup = Found json | Absent | Malformed

fun lookup_path :: "json \<Rightarrow> string list \<Rightarrow> lookup" where
  "lookup_path v [] = Found v"
| "lookup_path (JObj kvs) (k # ks) =
     (case map_of kvs k of None \<Rightarrow> Absent | Some w \<Rightarrow> lookup_path w ks)"
| "lookup_path _ (k # ks) = Malformed"

text \<open>
  A numeric field with a default: the default when the field is absent, its value as a
  float when it is there and converts, nothing otherwise.
\<close>

definition field_value ::
  "(string \<Rightarrow> pyfloat option) \<Rightarrow> json \<Rightarrow> string list \<Rightarrow> pyfloat \<Rightarrow> pyfloat option" where
  "field_value pf pair path d =
     (case lookup_path pair path of
        Absent \<Rightarrow> Some d
      | Found j \<Rightarrow> (case py_float pf j of Inr x \<Rightarrow> Some x | Inl _ \<Rightarrow> None)
      | Malformed \<Rightarrow> None)"

text \<open>
  The score formula of the specification,
  \<open>(liquidity*0.4 + volume24h*0.3 + (buys24h / max(sells24h, 1))*0.2 + priceChange24h*0.1) / max(fdv, 1)\<close>,
  in float arithmetic.
\<close>

definition spec_score ::
  "pyfloat \<Rightarrow> pyfloat \<Rightarrow> pyfloat \<Rightarrow> pyfloat \<Rightarrow> pyfloat \<Rightarrow> pyfloat \<Rightarrow> pyfloat" where
  "spec_score l v b s f p =
     fquot (fadd (fadd (fadd (fmul l (round64 (4 / 10))) (fmul v (round64 (3 / 10))))
                       (fmul (fquot b (py_max s (Fin 1))) (round64 (2 / 10))))
                 (fmul p (round64 (1 / 10))))
           (py_max f (Fin 1))"

section \<open>Example runs\<close>

definition example_pair :: json where
  "example_pair =
     JObj [(''baseToken'', JObj [(''symbol'', JStr ''MEME'')]),
           (''priceUsd'', JStr ''0.5''),
           (''liquidity'', JObj [(''usd'', JFloat (Fin 1000))]),
           (''volume'', JObj [(''h24'', JFloat (Fin 500))]),
           (''txns'', JObj [(''h24'', JObj [(''buys'', JInt 10), (''sells'', JInt 5)])]),
           (''fdv'', JFloat (Fin 2000)),
           (''priceChange'', JObj [(''h24'', JFloat (Fin 3))]),
           (''marketCap'', JFloat (Fin 1500))]"

definition example_token :: json where
  "example_token = JObj [(''tokenAddress'', JStr ''So1'')]"

definition example_env :: env where
  "example_env =
     \<lparr>session = (\<lambda>n u. \<lparr>status = 200, body = JObj [(''pairs'', JArr [example_pair])]\<rparr>),
      str_float = (\<lambda>s. if s = ''0.5'' then Some (Fin (1 / 2)) else None),
      draw = (\<lambda>n k. [0..<k])\<rparr>"

definition second_token :: json where
  "second_token = JObj [(''tokenAddress'', JStr ''So2'')]"

text \<open>A server that lists two tokens and answers every request for details with status 500.\<close>

definition failing_env :: env where
  "failing_env =
     \<lparr>session = (\<lambda>n u. case u of
                   TokenList \<Rightarrow> \<lparr>status = 200, body = JArr [example_token, second_token]\<rparr>
                 | TokenDetails a \<Rightarrow> \<lparr>status = 500, body = JNull\<rparr>),
      str_float = (\<lambda>s. None),
      draw = (\<lambda>n k. [0..<k])\<rparr>"

text \<open>A server whose pairs carry a liquidity that is not a number.\<close>

definition garbled_env :: env where
  "garbled_env =
     \<lparr>session = (\<lambda>n u. \<lparr>status = 200,
                   body = JObj [(''pairs'',
                     JArr [JObj [(''liquidity'', JObj [(''usd'', JStr ''n/a'')])]])]\<rparr>),
      str_float = (\<lambda>s. None),
      draw = (\<lambda>n k. [0..<k])\<rparr>"

text \<open>
  The element at position \<open>i\<close> is the stable maximum of the list: no score is above its
  score, and every element before it has a smaller score.
\<close>

definition stable_max_at :: "evaluated list \<Rightarrow> nat \<Rightarrow> bool" where
  "stable_max_at xs i =
     (i < length xs \<and> (\<forall>y \<in> set xs. fle (score y) (score (xs ! i)))
      \<and> (\<forall>j < i. fless (score (xs ! j)) (score (xs ! i))))"

definition entry :: "string \<Rightarrow> pyfloat \<Rightarrow> evaluated" where
  "entry a sc = \<lparr>tokenAddress = JStr a, tokenName = JStr a, score = sc\<rparr>"

text \<open>A server whose pairs carry the price change \<open>"nan"\<close>, a string that \<open>float\<close> accepts.\<close>

definition nan_env :: env where
  "nan_env =
     \<lparr>session = (\<lambda>n u. \<lparr>status = 200,
                   body = JObj [(''pairs'',
                     JArr [JObj [(''baseToken'', JObj [(''symbol'', JStr ''MEME'')]),
                                 (''priceChange'', JObj [(''h24'', JStr ''nan'')])]])]\<rparr>),
      str_float = (\<lambda>s. if s = ''nan'' then Some NaN else None),
      draw = (\<lambda>n k. [0..<k])\<rparr>"

section \<open>Observations of the monitor\<close>

text \<open>
  What the \<open>n\<close>-th request of a run shows the monitor of a token: the symbol and the
  price of the first pair, when the token has an address, the server answers with
  status 200, the body has a non-empty list of pairs, and the price converts to a float.
\<close>

definition observation :: "env \<Rightarrow> json \<Rightarrow> nat \<Rightarrow> (json \<times> pyfloat) option" where
  "observation ev token n =
     (case lookup_path token [''tokenAddress''] of
        Found addr \<Rightarrow>
          (let r = session ev n (TOKEN_DETAILS_URL addr) in
           if status r \<noteq> 200 then None
           else (case lookup_path (body r) [''pairs''] of
                   Found (JArr (pair # rest)) \<Rightarrow>
                     (case lookup_path pair [''baseToken'', ''symbol''] of
                        Found name \<Rightarrow>
                          (case lookup_path pair [''priceUsd''] of
                             Found jp \<Rightarrow>
                               (case py_float (str_float ev) jp of
                                  Inr price \<Rightarrow> Some (name, price)
                                | Inl _ \<Rightarrow> None)
                           | _ \<Rightarrow> None)
                      | _ \<Rightarrow> None)
                 | _ \<Rightarrow> None))
      | _ \<Rightarrow> None)"

fun is_bought :: "event \<Rightarrow> bool" where
  "is_bought (Bought _ _) = True"
| "is_bought _ = False"

fun is_sold :: "event \<Rightarrow> bool" where
  "is_sold (Sold _ _ _ _) = True"
| "is_sold _ = False"

fun is_monitor_error :: "event \<Rightarrow> bool" where
  "is_monitor_error (ErrorMonitoring _) = True"
| "is_monitor_error _ = False"

text \<open>The state that a run of the loop has reached, returned or not.\<close>

fun reached :: "'a flow \<Rightarrow> 'a" where
  "reached (Again x) = x"
| "reached (Return x) = x"

fun returned :: "'a flow \<Rightarrow> bool" where
  "returned (Again _) = False"
| "returned (Return _) = True"

text \<open>A server that shows, at the \<open>n\<close>-th request, the price \<open>prices n\<close> for the symbol MEME.\<close>

definition price_env :: "(nat \<Rightarrow> pyfloat) \<Rightarrow> env" where
  "price_env prices =
     \<lparr>session = (\<lambda>n u. \<lparr>status = 200,
                   body = JObj [(''pairs'',
                     JArr [JObj [(''baseToken'', JObj [(''symbol'', JStr ''MEME'')]),
                                 (''priceUsd'', JFloat (prices n))]])]\<rparr>),
      str_float = (\<lambda>s. None),
      draw = (\<lambda>n k. [0..<k])\<rparr>"

text \<open>A server that shows the price 100 at the first request and 120 afterwards.\<close>

definition rising_env :: env where
  "rising_env = price_env (\<lambda>n. if n = 0 then Fin 100 else Fin 120)"

text \<open>A server that lists two tokens and knows no pair for either.\<close>

definition pairless_env :: env where
  "pairless_env =
     \<lparr>session = (\<lambda>n u. case u of
                   TokenList \<Rightarrow> \<lparr>status = 200, body = JArr [example_token, second_token]\<rparr>
                 | TokenDetails a \<Rightarrow> \<lparr>status = 200, body = JObj [(''pairs'', JArr [])]\<rparr>),
      str_float = (\<lambda>s. None),
      draw = (\<lambda>n k. [0..<k])\<rparr>"

text \<open>A server that answers every request with the given body; the draw takes the first positions.\<close>

definition listing_env :: "json \<Rightarrow> env" where
  "listing_env data =
     \<lparr>session = (\<lambda>n u. \<lparr>status = 200, body = data\<rparr>),
      str_float = (\<lambda>s. None),
      draw = (\<lambda>n k. [0..<k])\<rparr>"

section \<open>Basic facts\<close>

lemma bindE_Inr [simp]: "bindE (Inr v) f = f v"
  by (simp add: bindE_def)

lemma bindE_Inl [simp]: "bindE (Inl e) f = Inl e"
  by (simp add: bindE_def)

lemma py_max_one_nonzero: "py_max x (Fin 1) \<noteq> Fin 0"
  by (cases x) (auto simp: py_max_def fgt_def)

lemma round64_zero [simp]: "round64 0 = Fin 0"
  by (simp add: round64_def)

lemma round64_one: "round64 1 = Fin 1"
  by code_simp

lemma py_float_zero: "py_float pf (JInt 0) = Inr (Fin 0)"
  by simp

lemma py_float_one: "py_float pf (JInt 1) = Inr (Fin 1)"
  by (simp add: round64_one)

section \<open>Facts about the evaluation of a token\<close>

lemma lookup_cons:
  "lookup_path v (k # ks) = Found j \<Longrightarrow>
     \<exists>w. lookup_path v [k] = Found w \<and> lookup_path w ks = Found j"
  by (cases v) (auto split: option.splits)

lemma item_found: "lookup_path v [k] = Found j \<Longrightarrow> py_item v k = Inr j"
  by (cases v) (auto split: option.splits)

text \<open>The chain of \<open>get\<close> calls with a default agrees with the lookup of the path.\<close>

lemma get_float1:
  assumes "field_value pf v [k] d = Some x" and "py_float pf dj = Inr d"
  shows "bindE (py_get v k dj) (py_float pf) = Inr x"
  using assms
  by (cases v) (auto simp: field_value_def split: option.splits sum.splits lookup.splits)

lemma field_value_step:
  assumes "field_value pf v (k # k' # ks) d = Some x"
  shows "\<exists>w. py_get v k (JObj []) = Inr w \<and> field_value pf w (k' # ks) d = Some x"
  using assms
  by (cases v) (auto simp: field_value_def split: option.splits sum.splits lookup.splits)

lemma nested_float_value:
  assumes "field_value pf v [k1, k2] d = Some x" and "py_float pf dj = Inr d"
  shows "nested_float pf v k1 k2 dj = Inr x"
proof -
  from field_value_step [OF assms(1)] obtain w where
    w: "py_get v k1 (JObj []) = Inr w" "field_value pf w [k2] d = Some x"
    by blast
  show ?thesis
    by (simp add: nested_float_def w(1) get_float1 [OF w(2) assms(2)])
qed


lemma extract_fields_value:
  assumes l: "field_value pf pair [''liquidity'', ''usd''] (Fin 0) = Some l"
    and v: "field_value pf pair [''volume'', ''h24''] (Fin 0) = Some v"
    and b: "field_value pf pair [''txns'', ''h24'', ''buys''] (Fin 0) = Some b"
    and s: "field_value pf pair [''txns'', ''h24'', ''sells''] (Fin 0) = Some s"
    and f: "field_value pf pair [''fdv''] (Fin 1) = Some f"
    and p: "field_value pf pair [''priceChange'', ''h24''] (Fin 0) = Some p"
    and m: "field_value pf pair [''marketCap''] f = Some m"
  shows "extract_fields pf pair =
           Inr \<lparr>liquidity = l, volume_24h = v, buys_24h = b, sells_24h = s,
                buy_sell_ratio = fquot b (py_max s (Fin 1)), fdv = f,
                price_change_24h = p, market_cap = m\<rparr>"
proof -
  from field_value_step [OF b] obtain t where
    t: "py_get pair ''txns'' (JObj []) = Inr t"
       "field_value pf t [''h24'', ''buys''] (Fin 0) = Some b"
    by blast
  from field_value_step [OF t(2)] obtain x where
    x: "py_get t ''h24'' (JObj []) = Inr x" "field_value pf x [''buys''] (Fin 0) = Some b"
    by blast
  from field_value_step [OF s] t(1) have "field_value pf t [''h24'', ''sells''] (Fin 0) = Some s"
    by auto
  from field_value_step [OF this] x(1) have xs: "field_value pf x [''sells''] (Fin 0) = Some s"
    by auto
  have r: "py_truediv b (py_max s (Fin 1)) = Inr (fquot b (py_max s (Fin 1)))"
    by (simp add: py_truediv_def py_max_one_nonzero)
  have mf: "py_float pf (JFloat f) = Inr f"
    by simp
  show ?thesis
    unfolding extract_fields_def
    by (simp only: nested_float_value [OF l py_float_zero] nested_float_value [OF v py_float_zero]
        nested_float_value [OF p py_float_zero] t(1) x(1)
        get_float1 [OF x(2) py_float_zero] get_float1 [OF xs py_float_zero]
        get_float1 [OF f py_float_one] get_float1 [OF m mf] r bindE_Inr)
qed

lemma compute_score_eq:
  "compute_score \<lparr>liquidity = l, volume_24h = v, buys_24h = b, sells_24h = s,
                buy_sell_ratio = fquot b (py_max s (Fin 1)), fdv = f,
                price_change_24h = p, market_cap = m\<rparr> = Inr (spec_score l v b s f p)"
  by (simp add: compute_score_def spec_score_def py_truediv_def py_max_one_nonzero)

lemma field_value_found:
  "lookup_path v path = Found j \<Longrightarrow> py_float pf j = Inr x \<Longrightarrow> field_value pf v path d = Some x"
  by (simp add: field_value_def)

lemma no_pairs_list:
  "lookup_path token_data [''pairs''] = Found (JArr (pair # rest)) \<Longrightarrow>
     no_pairs token_data = Inr False"
  by (cases token_data) (auto simp: no_pairs_def split: option.splits)

lemma first_pair_list:
  "lookup_path token_data [''pairs''] = Found (JArr (pair # rest)) \<Longrightarrow>
     first_pair token_data = Inr pair"
  by (simp add: first_pair_def item_found)

lemma symbol_found:
  assumes "lookup_path pair [''baseToken'', ''symbol''] = Found name"
  shows "bindE (py_item pair ''baseToken'') (\<lambda>b. py_item b ''symbol'') = Inr name"
proof -
  from lookup_cons [OF assms] obtain w where
    "lookup_path pair [''baseToken''] = Found w" "lookup_path w [''symbol''] = Found name"
    by blast
  then show ?thesis
    by (simp add: item_found)
qed


lemma fetch_ok: "r = \<lparr>status = 200, body = d\<rparr> \<Longrightarrow> fetch_data r = Inr d"
  by (simp add: fetch_data_def)

lemma evaluate_token_value:
  assumes tok: "lookup_path token [''tokenAddress''] = Found addr"
    and resp: "session ev (reqs st) (TOKEN_DETAILS_URL addr) = \<lparr>status = 200, body = token_data\<rparr>"
    and pairs: "lookup_path token_data [''pairs''] = Found (JArr (pair # rest))"
    and sym: "lookup_path pair [''baseToken'', ''symbol''] = Found name"
    and l: "field_value (str_float ev) pair [''liquidity'', ''usd''] (Fin 0) = Some l"
    and v: "field_value (str_float ev) pair [''volume'', ''h24''] (Fin 0) = Some v"
    and b: "field_value (str_float ev) pair [''txns'', ''h24'', ''buys''] (Fin 0) = Some b"
    and s: "field_value (str_float ev) pair [''txns'', ''h24'', ''sells''] (Fin 0) = Some s"
    and f: "field_value (str_float ev) pair [''fdv''] (Fin 1) = Some f"
    and p: "field_value (str_float ev) pair [''priceChange'', ''h24''] (Fin 0) = Some p"
    and m: "field_value (str_float ev) pair [''marketCap''] f = Some m"
  shows "evaluate_token ev token st =
           (Inr (Some \<lparr>tokenAddress = addr, tokenName = name, score = spec_score l v b s f p\<rparr>),
            emit (McapFdv m f) (st\<lparr>reqs := Suc (reqs st)\<rparr>))"
proof -
  have rd: "result_dict token token_data sc =
              Inr \<lparr>tokenAddress = addr, tokenName = name, score = sc\<rparr>" for sc
    by (simp add: result_dict_def item_found [OF tok] first_pair_list [OF pairs]
        symbol_found [OF sym])
  have tr: "evaluate_try ev token st =
           (Inr (Some \<lparr>tokenAddress = addr, tokenName = name, score = spec_score l v b s f p\<rparr>),
            emit (McapFdv m f) (st\<lparr>reqs := Suc (reqs st)\<rparr>))"
    unfolding evaluate_try_def
    by (simp add: item_found [OF tok] fetch_ok [OF resp] no_pairs_list [OF pairs]
        first_pair_list [OF pairs] extract_fields_value [OF l v b s f p m]
        compute_score_eq rd)
  show ?thesis
    by (simp add: evaluate_token_def tr)
qed

lemma field_value_absent:
  "field_value pf v path d = Some x \<Longrightarrow> lookup_path v path = Absent \<Longrightarrow> x = d"
  by (simp add: field_value_def)

lemma evaluate_token_caught:
  assumes "evaluate_try ev (JObj kvs) st = (Inl e, st')" and "caught e"
  shows "evaluate_token ev (JObj kvs) st =
           (Inr None,
            emit (ErrorEvaluating (case map_of kvs ''tokenAddress'' of None \<Rightarrow> JNull | Some a \<Rightarrow> a) e) st')"
  using assms by (simp add: evaluate_token_def)

lemma evaluate_token_uncaught:
  assumes "evaluate_try ev token st = (Inl e, st')" and "\<not> caught e"
  shows "evaluate_token ev token st = (Inl e, st')"
  using assms by (simp add: evaluate_token_def)

lemma evaluate_try_fetch_failed:
  assumes "map_of kvs ''tokenAddress'' = Some addr"
    and "status (session ev (reqs st) (TOKEN_DETAILS_URL addr)) = c" and "c \<noteq> 200"
  shows "evaluate_try ev (JObj kvs) st = (Inl (FetchFailed c), st\<lparr>reqs := Suc (reqs st)\<rparr>)"
  using assms by (simp add: evaluate_try_def fetch_data_def)

lemma not_caught_fetch: "\<not> caught (FetchFailed c)"
  by (simp add: caught_def)

section \<open>Facts about the order of floats and the selection\<close>

lemma fle_refl: "x \<noteq> NaN \<Longrightarrow> fle x x"
  by (simp add: fle_def)

lemma fless_imp_fle: "fless a b \<Longrightarrow> fle a b"
  by (cases a; cases b) (auto simp: fle_def)

lemma fle_fless_trans: "fle a b \<Longrightarrow> fless b c \<Longrightarrow> fless a c"
  by (cases a; cases b; cases c) (auto simp: fle_def)

lemma not_fless_fle: "a \<noteq> NaN \<Longrightarrow> b \<noteq> NaN \<Longrightarrow> \<not> fless a b \<Longrightarrow> fle b a"
  by (cases a; cases b) (auto simp: fle_def)

lemma stable_max_snoc_new:
  assumes "stable_max_at ys i" and "fless (score (ys ! i)) (score x)"
  shows "stable_max_at (ys @ [x]) (length ys)"
proof -
  from assms(1) have i: "i < length ys"
    and le: "\<forall>y \<in> set ys. fle (score y) (score (ys ! i))"
    by (simp_all add: stable_max_at_def)
  have a: "fless (score y) (score x)" if "y \<in> set ys" for y
    using le that assms(2) by (blast intro: fle_fless_trans)
  have "fle (score x) (score x)"
    using assms(2) by (cases "score x") (auto simp: fle_def)
  moreover have "fless (score (ys ! j)) (score x)" if "j < length ys" for j
    using a that by simp
  ultimately show ?thesis
    using a by (auto simp: stable_max_at_def nth_append fless_imp_fle)
qed

lemma stable_max_snoc_keep:
  assumes "stable_max_at ys i" and "fle (score x) (score (ys ! i))"
  shows "stable_max_at (ys @ [x]) i"
  using assms by (auto simp: stable_max_at_def nth_append)

lemma max_loop_stable:
  assumes "stable_max_at ys i" and "best = ys ! i" and "\<forall>x \<in> set (ys @ xs). score x \<noteq> NaN"
  shows "\<exists>k. max_loop best xs = (ys @ xs) ! k \<and> stable_max_at (ys @ xs) k"
  using assms
proof (induction xs arbitrary: ys i best)
  case Nil
  then show ?case by auto
next
  case (Cons x xs)
  have i: "i < length ys"
    using Cons.prems(1) by (simp add: stable_max_at_def)
  then have bn: "score (ys ! i) \<noteq> NaN"
    using Cons.prems(3) by simp
  have xn: "score x \<noteq> NaN"
    using Cons.prems(3) by simp
  have nn: "\<forall>z \<in> set ((ys @ [x]) @ xs). score z \<noteq> NaN"
    using Cons.prems(3) by simp
  show ?case
  proof (cases "fgt (score x) (score best)")
    case True
    then have lt: "fless (score (ys ! i)) (score x)"
      using Cons.prems(2) by (simp add: fgt_def)
    have "\<exists>k. max_loop x xs = ((ys @ [x]) @ xs) ! k \<and> stable_max_at ((ys @ [x]) @ xs) k"
      by (rule Cons.IH [OF stable_max_snoc_new [OF Cons.prems(1) lt] _ nn]) simp
    then show ?thesis
      using True by simp
  next
    case False
    then have "fle (score x) (score (ys ! i))"
      using Cons.prems(2) bn xn by (simp add: fgt_def not_fless_fle)
    from stable_max_snoc_keep [OF Cons.prems(1) this]
    have "\<exists>k. max_loop best xs = ((ys @ [x]) @ xs) ! k \<and> stable_max_at ((ys @ [x]) @ xs) k"
      by (rule Cons.IH) (use Cons.prems(2) i nn in \<open>simp_all add: nth_append\<close>)
    then show ?thesis
      using False by simp
  qed
qed

lemma stable_max_single: "score x \<noteq> NaN \<Longrightarrow> stable_max_at [x] 0"
  by (simp add: stable_max_at_def fle_refl)

section \<open>Facts about a pass of the monitor loop\<close>

lemma observationD:
  assumes "observation ev token n = Some (name, price)"
  shows "\<exists>addr token_data pair rest jp.
           lookup_path token [''tokenAddress''] = Found addr
         \<and> session ev n (TOKEN_DETAILS_URL addr) = \<lparr>status = 200, body = token_data\<rparr>
         \<and> lookup_path token_data [''pairs''] = Found (JArr (pair # rest))
         \<and> lookup_path pair [''baseToken'', ''symbol''] = Found name
         \<and> lookup_path pair [''priceUsd''] = Found jp
         \<and> py_float (str_float ev) jp = Inr price"
proof -
  from assms obtain addr where a: "lookup_path token [''tokenAddress''] = Found addr"
    by (auto simp: observation_def split: lookup.splits)
  define r where "r = session ev n (TOKEN_DETAILS_URL addr)"
  from assms a have s: "status r = 200"
    by (auto simp: observation_def r_def Let_def split: if_splits)
  from assms a s obtain pair rest where p: "lookup_path (body r) [''pairs''] = Found (JArr (pair # rest))"
    by (auto simp: observation_def r_def Let_def split: lookup.splits json.splits list.splits)
  from assms a s p obtain jp where
    q: "lookup_path pair [''baseToken'', ''symbol''] = Found name"
       "lookup_path pair [''priceUsd''] = Found jp" "py_float (str_float ev) jp = Inr price"
    by (auto simp: observation_def r_def Let_def split: lookup.splits sum.splits)
  have "r = \<lparr>status = 200, body = body r\<rparr>"
    using s by simp
  with a p q show ?thesis
    unfolding r_def by blast
qed


lemma item_InrD: "py_item v k = Inr j \<Longrightarrow> lookup_path v [k] = Found j"
  by (cases v) (auto split: option.splits)

lemma first_pair_InrD:
  assumes "first_pair token_data = Inr pair" and "py_item pair k = Inr x"
  shows "\<exists>rest. lookup_path token_data [''pairs''] = Found (JArr (pair # rest))"
proof -
  from assms(1) obtain ps where ps: "py_item token_data ''pairs'' = Inr ps" "py_item0 ps = Inr pair"
    by (cases "py_item token_data ''pairs''") (auto simp: first_pair_def)
  from assms(2) obtain kvs where "pair = JObj kvs"
    by (cases pair) auto
  with ps(2) obtain rest where "ps = JArr (pair # rest)"
    by (cases ps rule: py_item0.cases) auto
  with item_InrD [OF ps(1)] show ?thesis
    by blast
qed

lemma monitor_try_observed:
  assumes "observation ev token (reqs st) = Some (name, price)"
  shows "monitor_try ev token pos st = after_price name price pos (st\<lparr>reqs := Suc (reqs st)\<rparr>)"
proof -
  from observationD [OF assms] obtain addr token_data pair rest jp where
    a: "lookup_path token [''tokenAddress''] = Found addr"
    and r: "session ev (reqs st) (TOKEN_DETAILS_URL addr) = \<lparr>status = 200, body = token_data\<rparr>"
    and p: "lookup_path token_data [''pairs''] = Found (JArr (pair # rest))"
    and n: "lookup_path pair [''baseToken'', ''symbol''] = Found name"
    and j: "lookup_path pair [''priceUsd''] = Found jp"
    and f: "py_float (str_float ev) jp = Inr price"
    by blast
  have sy: "bindE (bindE (first_pair token_data) (\<lambda>p. py_item p ''baseToken''))
                           (\<lambda>b. py_item b ''symbol'') = Inr name"
    using symbol_found [OF n] by (simp add: first_pair_list [OF p] bindE_def split: sum.splits)
  have pr: "bindE (bindE (first_pair token_data) (\<lambda>p. py_item p ''priceUsd''))
                                (py_float (str_float ev)) = Inr price"
    by (simp add: first_pair_list [OF p] item_found [OF j] f)
  show ?thesis
    unfolding monitor_try_def
    by (simp add: item_found [OF a] fetch_ok [OF r] sy pr)
qed


lemma monitor_try_unobserved:
  assumes "observation ev token (reqs st) = None"
  shows "\<exists>e st1. monitor_try ev token pos st = (Inl e, pos, st1)
           \<and> out st1 = out st \<and> slept st1 = slept st"
proof (cases "py_item token ''tokenAddress''")
  case (Inl e)
  then show ?thesis by (simp add: monitor_try_def)
next
  case (Inr addr)
  note a = item_InrD [OF Inr]
  define r where "r = session ev (reqs st) (TOKEN_DETAILS_URL addr)"
  show ?thesis
  proof (cases "fetch_data r")
    case (Inl e)
    then show ?thesis using Inr by (simp add: monitor_try_def r_def)
  next
    case fd: (Inr token_data)
    then have s: "status r = 200" and bd: "body r = token_data"
      by (auto simp: fetch_data_def split: if_splits)
    show ?thesis
    proof (cases "bindE (bindE (first_pair token_data) (\<lambda>p. py_item p ''baseToken''))
                           (\<lambda>b. py_item b ''symbol'')")
      case (Inl e)
      then show ?thesis using Inr fd by (simp add: monitor_try_def r_def)
    next
      case nm: (Inr name)
      then obtain pair b where fp: "first_pair token_data = Inr pair"
        and bt: "py_item pair ''baseToken'' = Inr b" and sy: "py_item b ''symbol'' = Inr name"
        by (auto simp: bindE_def split: sum.splits)
      from first_pair_InrD [OF fp bt] obtain rest where
        ps: "lookup_path token_data [''pairs''] = Found (JArr (pair # rest))"
        by blast
      have sym: "lookup_path pair [''baseToken'', ''symbol''] = Found name"
        using item_InrD [OF bt] item_InrD [OF sy] by (cases pair) (auto split: option.splits)
      show ?thesis
      proof (cases "bindE (bindE (first_pair token_data) (\<lambda>p. py_item p ''priceUsd''))
                                (py_float (str_float ev))")
        case (Inl e)
        then show ?thesis using Inr fd nm by (simp add: monitor_try_def r_def)
      next
        case pr: (Inr price)
        then obtain jp where "py_item pair ''priceUsd'' = Inr jp" "py_float (str_float ev) jp = Inr price"
          using fp by (auto simp: bindE_def split: sum.splits)
        then have "observation ev token (reqs st) = Some (name, price)"
          using a s bd ps sym item_InrD [of pair "''priceUsd''" jp]
          by (simp add: observation_def r_def [symmetric] Let_def)
        with assms show ?thesis by simp
      qed
    qed
  qed
qed


lemma drop_value: "SELL_DROP_THRESHOLD = Fin (4278419646001971 / 4503599627370496)"
  unfolding SELL_DROP_THRESHOLD_def by code_simp

lemma sell_now_zero: "sell_now (Fin 0) (Fin 0)"
  by (simp add: sell_now_def drop_value fle_def)

lemma monitor_step_unobserved:
  assumes "observation ev token (reqs st) = None"
  shows "\<exists>e st1. monitor_step ev token (pos, st) = Return (pos, emit (ErrorMonitoring e) st1)
           \<and> out st1 = out st \<and> slept st1 = slept st"
proof -
  from monitor_try_unobserved [OF assms, of pos] obtain e st1 where
    "monitor_try ev token pos st = (Inl e, pos, st1)" "out st1 = out st" "slept st1 = slept st"
    by blast
  then show ?thesis
    by (auto simp: monitor_step_def)
qed

lemma monitor_step_held:
  assumes "buy_price pos = Some bp" and "observation ev token (reqs st) = Some (name, price)"
  shows "monitor_step ev token (pos, st) =
           (if sell_now price bp then
              Return (pos\<lparr>current_balance :=
                            fadd (current_balance pos) (fmul (fsub price bp) (purchased_amount pos))\<rparr>,
                      emit (Sold name price (fmul (fsub price bp) (purchased_amount pos))
                              (fless (fmul (fsub price bp) (purchased_amount pos)) (Fin 0)))
                        (emit (Monitoring name price) (st\<lparr>reqs := Suc (reqs st)\<rparr>)))
            else
              Again (pos, (emit (Monitoring name price) (st\<lparr>reqs := Suc (reqs st)\<rparr>))
                            \<lparr>slept := slept st + FETCH_INTERVAL\<rparr>))"
  using assms(1)
  by (simp add: monitor_step_def monitor_try_observed [OF assms(2)] after_price_def
      initial_buy_def emit_def Let_def)

lemma monitor_step_first_zero:
  assumes "buy_price pos = None" and "observation ev token (reqs st) = Some (name, Fin 0)"
  shows "monitor_step ev token (pos, st) =
           Return (pos\<lparr>buy_price := Some (Fin 0)\<rparr>,
                   emit (ErrorMonitoring ZeroDivisionError)
                     (emit (Monitoring name (Fin 0)) (st\<lparr>reqs := Suc (reqs st)\<rparr>)))"
  using assms(1)
  by (simp add: monitor_step_def monitor_try_observed [OF assms(2)] after_price_def
      initial_buy_def py_truediv_def Let_def)

lemma monitor_step_first:
  assumes "buy_price pos = None" and "observation ev token (reqs st) = Some (name, price)"
    and "price \<noteq> Fin 0"
  shows "monitor_step ev token (pos, st) =
           (if sell_now price price then
              Return (pos\<lparr>buy_price := Some price,
                          purchased_amount := fquot (current_balance pos) price,
                          current_balance :=
                            fadd (current_balance pos)
                              (fmul (fsub price price) (fquot (current_balance pos) price))\<rparr>,
                      emit (Sold name price (fmul (fsub price price) (fquot (current_balance pos) price))
                              (fless (fmul (fsub price price) (fquot (current_balance pos) price)) (Fin 0)))
                        (emit (Bought name price)
                           (emit (Monitoring name price) (st\<lparr>reqs := Suc (reqs st)\<rparr>))))
            else
              Again (pos\<lparr>buy_price := Some price,
                         purchased_amount := fquot (current_balance pos) price\<rparr>,
                     (emit (Bought name price)
                        (emit (Monitoring name price) (st\<lparr>reqs := Suc (reqs st)\<rparr>)))
                       \<lparr>slept := slept st + FETCH_INTERVAL\<rparr>))"
  using assms(1,3)
  by (simp add: monitor_step_def monitor_try_observed [OF assms(2)] after_price_def
      initial_buy_def py_truediv_def emit_def Let_def)

lemma not_sell_nonzero: "\<not> sell_now p p \<Longrightarrow> p \<noteq> Fin 0"
  using sell_now_zero by auto

text \<open>A held position whose every observation is below the gain and above the drop threshold.\<close>

lemma held_loop_runs:
  assumes "buy_price pos = Some bp"
    and "\<forall>k. observation ev token (reqs st + k) = Some (names k, prices k)"
    and "\<forall>k. \<not> sell_now (prices k) bp"
  shows "\<exists>st'. monitor_loop n ev token (pos, st) = Again (pos, st')
           \<and> reqs st' = reqs st + n \<and> slept st' = slept st + n * FETCH_INTERVAL"
  using assms(2,3)
proof (induction n arbitrary: st names prices)
  case 0
  then show ?case by simp
next
  case (Suc n)
  from Suc.prems(1) have o: "observation ev token (reqs st) = Some (names 0, prices 0)"
    by (metis add.right_neutral)
  define st1 where "st1 = (emit (Monitoring (names 0) (prices 0)) (st\<lparr>reqs := Suc (reqs st)\<rparr>))
                            \<lparr>slept := slept st + FETCH_INTERVAL\<rparr>"
  have step: "monitor_step ev token (pos, st) = Again (pos, st1)"
    using monitor_step_held [OF assms(1) o] Suc.prems(2) by (simp add: st1_def)
  have r: "reqs st1 = Suc (reqs st)" and s: "slept st1 = slept st + FETCH_INTERVAL"
    by (simp_all add: st1_def emit_def)
  have a1: "\<forall>k. observation ev token (reqs st1 + k) = Some (names (Suc k), prices (Suc k))"
    using Suc.prems(1) r by (metis add_Suc_shift)
  have a2: "\<forall>k. \<not> sell_now (prices (Suc k)) bp"
    using Suc.prems(2) by simp
  from Suc.IH [of st1 "\<lambda>k. names (Suc k)" "\<lambda>k. prices (Suc k)"] a1 a2 obtain st' where
    "monitor_loop n ev token (pos, st1) = Again (pos, st')"
    "reqs st' = reqs st1 + n" "slept st' = slept st1 + n * FETCH_INTERVAL"
    by auto
  then show ?case
    using step r s by simp
qed

lemma first_loop_runs:
  assumes "\<forall>k. observation ev token (reqs st + k) = Some (names k, prices k)"
    and "\<forall>k. \<not> sell_now (prices k) (prices 0)"
  shows "\<exists>pos st'. monitor_loop n ev token (initial_position, st) = Again (pos, st')
           \<and> reqs st' = reqs st + n \<and> slept st' = slept st + n * FETCH_INTERVAL"
proof (cases n)
  case 0
  then show ?thesis by simp
next
  case (Suc m)
  from assms(1) have o: "observation ev token (reqs st) = Some (names 0, prices 0)"
    by (metis add.right_neutral)
  have ns: "\<not> sell_now (prices 0) (prices 0)"
    using assms(2) by simp
  define pos1 where "pos1 = initial_position\<lparr>buy_price := Some (prices 0),
      purchased_amount := fquot (current_balance initial_position) (prices 0)\<rparr>"
  define st1 where "st1 = (emit (Bought (names 0) (prices 0))
      (emit (Monitoring (names 0) (prices 0)) (st\<lparr>reqs := Suc (reqs st)\<rparr>)))
         \<lparr>slept := slept st + FETCH_INTERVAL\<rparr>"
  have bn: "buy_price initial_position = None"
    by (simp add: initial_position_def)
  have step: "monitor_step ev token (initial_position, st) = Again (pos1, st1)"
    using monitor_step_first [OF bn o not_sell_nonzero [OF ns]] ns
    by (simp add: pos1_def st1_def)
  have r: "reqs st1 = Suc (reqs st)" and s: "slept st1 = slept st + FETCH_INTERVAL"
    by (simp_all add: st1_def emit_def)
  have b: "buy_price pos1 = Some (prices 0)"
    by (simp add: pos1_def)
  have a1: "\<forall>k. observation ev token (reqs st1 + k) = Some (names (Suc k), prices (Suc k))"
    using assms(1) r by (metis add_Suc_shift)
  have a2: "\<forall>k. \<not> sell_now (prices (Suc k)) (prices 0)"
    using assms(2) by simp
  from held_loop_runs [OF b, of ev token st1 "\<lambda>k. names (Suc k)" "\<lambda>k. prices (Suc k)" m] a1 a2
  obtain st' where
    "monitor_loop m ev token (pos1, st1) = Again (pos1, st')"
    "reqs st' = reqs st1 + m" "slept st' = slept st1 + m * FETCH_INTERVAL"
    by auto
  then show ?thesis
    using step r s Suc by simp
qed

lemma monitor_try_sold:
  assumes "monitor_try ev token pos st = (Inr True, pos', st')"
  shows "out st' \<noteq> [] \<and> is_sold (last (out st'))"
  using assms
  by (auto simp: monitor_try_def after_price_def Let_def emit_def
      split: sum.splits prod.splits if_splits)

lemma monitor_step_return:
  assumes "monitor_step ev token ps = Return (pos', st')"
  shows "out st' \<noteq> [] \<and> (is_sold (last (out st')) \<or> is_monitor_error (last (out st')))"
proof (cases "monitor_try ev token (fst ps) (snd ps)")
  case (fields r p s)
  show ?thesis
  proof (cases r)
    case (Inl e)
    with fields assms show ?thesis
      by (auto simp: monitor_step_def emit_def)
  next
    case (Inr b)
    with fields assms have "b" "p = pos'" "s = st'"
      by (auto simp: monitor_step_def split: if_splits bool.splits)
    with fields Inr monitor_try_sold [of ev token "fst ps" "snd ps" pos' st'] show ?thesis
      by simp
  qed
qed

lemma monitor_loop_return:
  assumes "monitor_loop n ev token ps = Return (pos', st')"
  shows "out st' \<noteq> [] \<and> (is_sold (last (out st')) \<or> is_monitor_error (last (out st')))"
  using assms
proof (induction n arbitrary: ps)
  case 0
  then show ?case by simp
next
  case (Suc n)
  show ?case
  proof (cases "monitor_step ev token ps")
    case (Again ps')
    with Suc show ?thesis by simp
  next
    case (Return r)
    with Suc.prems have "monitor_step ev token ps = Return (pos', st')"
      by simp
    then show ?thesis by (rule monitor_step_return)
  qed
qed

lemma filter_butlast_le1:
  assumes "\<forall>e \<in> set (butlast xs). \<not> P e"
  shows "length (filter P xs) \<le> 1"
proof (cases "xs = []")
  case True
  then show ?thesis by simp
next
  case False
  then have "xs = butlast xs @ [last xs]"
    by simp
  then have "filter P xs = filter P (butlast xs) @ filter P [last xs]"
    by (metis filter_append)
  moreover have "filter P (butlast xs) = []"
    using assms by (simp add: filter_empty_conv)
  ultimately show ?thesis
    by simp
qed

text \<open>The lines printed by a run that starts with a position already held.\<close>

lemma held_loop_events:
  assumes "buy_price pos = Some bp"
  shows "\<exists>new. out (snd (reached (monitor_loop n ev token (pos, st)))) = out st @ new
           \<and> (\<forall>e \<in> set new. \<not> is_bought e)
           \<and> (\<forall>e \<in> set (butlast new). \<not> is_sold e)
           \<and> ((\<exists>e \<in> set new. is_sold e) \<longrightarrow> returned (monitor_loop n ev token (pos, st)))
           \<and> buy_price (fst (reached (monitor_loop n ev token (pos, st)))) = Some bp
           \<and> purchased_amount (fst (reached (monitor_loop n ev token (pos, st))))
               = purchased_amount pos"
proof (induction n arbitrary: st)
  case 0
  show ?case using assms by simp
next
  case (Suc n)
  show ?case
  proof (cases "observation ev token (reqs st)")
    case None
    from monitor_step_unobserved [OF None, of pos] obtain e st1 where
      "monitor_step ev token (pos, st) = Return (pos, emit (ErrorMonitoring e) st1)"
      "out st1 = out st"
      by blast
    then show ?thesis
      using assms by (simp add: emit_def)
  next
    case (Some np)
    obtain name price where np: "np = (name, price)"
      by (cases np)
    note step = monitor_step_held [OF assms Some [unfolded np]]
    show ?thesis
    proof (cases "sell_now price bp")
      case True
      then show ?thesis
        using step assms by (simp add: emit_def)
    next
      case False
      define st1 where "st1 = (emit (Monitoring name price) (st\<lparr>reqs := Suc (reqs st)\<rparr>))
                            \<lparr>slept := slept st + FETCH_INTERVAL\<rparr>"
      have s1: "monitor_loop (Suc n) ev token (pos, st) = monitor_loop n ev token (pos, st1)"
        using step False by (simp add: st1_def)
      have o1: "out st1 = out st @ [Monitoring name price]"
        by (simp add: st1_def emit_def)
      from Suc.IH [of st1] obtain new where
        n: "out (snd (reached (monitor_loop n ev token (pos, st1)))) = out st1 @ new"
        "\<forall>e \<in> set new. \<not> is_bought e"
        "\<forall>e \<in> set (butlast new). \<not> is_sold e"
        "(\<exists>e \<in> set new. is_sold e) \<longrightarrow> returned (monitor_loop n ev token (pos, st1))"
        "buy_price (fst (reached (monitor_loop n ev token (pos, st1)))) = Some bp"
        "purchased_amount (fst (reached (monitor_loop n ev token (pos, st1)))) = purchased_amount pos"
        by blast
      have "out (snd (reached (monitor_loop n ev token (pos, st1))))
              = out st @ (Monitoring name price # new)"
        using n(1) o1 by simp
      moreover have "\<forall>e \<in> set (Monitoring name price # new). \<not> is_bought e"
        using n(2) by simp
      moreover have "\<forall>e \<in> set (butlast (Monitoring name price # new)). \<not> is_sold e"
        using n(3) by simp
      moreover have "(\<exists>e \<in> set (Monitoring name price # new). is_sold e)
           \<longrightarrow> returned (monitor_loop n ev token (pos, st1))"
        using n(4) by simp
      ultimately show ?thesis
        unfolding s1 using n(5,6) by blast
    qed
  qed
qed

section \<open>Facts about the sample\<close>

lemma sample_tokens_list:
  "sample_tokens dr (JArr xs) = Inr (map (\<lambda>i. xs ! i) (dr (length xs) (min (length xs) 15)))"
  by (simp add: sample_tokens_def random_sample_def)

lemma sample_tokens_other:
  "(\<forall>xs. data \<noteq> JArr xs) \<Longrightarrow> sample_tokens dr data = Inl UnexpectedFormat"
  by (cases data) (simp_all add: sample_tokens_def)

lemma get_random_tokens_ok:
  "session ev (reqs st) TOKEN_LIST_URL = \<lparr>status = 200, body = data\<rparr> \<Longrightarrow>
     get_random_tokens ev st = (sample_tokens (draw ev) data, st\<lparr>reqs := Suc (reqs st)\<rparr>)"
  by (simp add: get_random_tokens_def fetch_data_def)

section \<open>The score of a token\<close>

text \<open>
  C1: when the details of a token arrive and the fields liquidity, volume24h, buys24h,
  sells24h, fdv and priceChange24h of its first pair convert to numbers, the score that
  evaluate_token returns is the value of
  (liquidity*0.4 + volume24h*0.3 + (buys24h / max(sells24h, 1))*0.2 + priceChange24h*0.1) / max(fdv, 1)
  in float arithmetic. Neither divisor is ever zero, so no division raises; with
  sells24h = 0 the ratio is buys24h / 1. For 1000, 500, 10, 5, 2000 and 3 the score
  is the float 0.27535.
\<close>

theorem evaluate_token_score_formula:
  assumes "lookup_path token [''tokenAddress''] = Found addr"
    and "session ev (reqs st) (TOKEN_DETAILS_URL addr) = \<lparr>status = 200, body = token_data\<rparr>"
    and "lookup_path token_data [''pairs''] = Found (JArr (pair # rest))"
    and "lookup_path pair [''baseToken'', ''symbol''] = Found name"
    and "lookup_path pair [''liquidity'', ''usd''] = Found jl"
    and "py_float (str_float ev) jl = Inr l"
    and "lookup_path pair [''volume'', ''h24''] = Found jv"
    and "py_float (str_float ev) jv = Inr v"
    and "lookup_path pair [''txns'', ''h24'', ''buys''] = Found jb"
    and "py_float (str_float ev) jb = Inr b"
    and "lookup_path pair [''txns'', ''h24'', ''sells''] = Found js"
    and "py_float (str_float ev) js = Inr s"
    and "lookup_path pair [''fdv''] = Found jf"
    and "py_float (str_float ev) jf = Inr f"
    and "lookup_path pair [''priceChange'', ''h24''] = Found jp"
    and "py_float (str_float ev) jp = Inr p"
    and "field_value (str_float ev) pair [''marketCap''] f = Some m"
  shows "evaluate_token ev token st =
           (Inr (Some \<lparr>tokenAddress = addr, tokenName = name, score = spec_score l v b s f p\<rparr>),
            emit (McapFdv m f) (st\<lparr>reqs := Suc (reqs st)\<rparr>))
         \<and> py_max s (Fin 1) \<noteq> Fin 0 \<and> py_max f (Fin 1) \<noteq> Fin 0
         \<and> py_truediv b (py_max (Fin 0) (Fin 1)) = Inr (fquot b (Fin 1))
         \<and> spec_score (Fin 1000) (Fin 500) (Fin 10) (Fin 5) (Fin 2000) (Fin 3)
             = round64 (27535 / 100000)"
proof -
  have ev: "evaluate_token ev token st =
           (Inr (Some \<lparr>tokenAddress = addr, tokenName = name, score = spec_score l v b s f p\<rparr>),
            emit (McapFdv m f) (st\<lparr>reqs := Suc (reqs st)\<rparr>))"
    by (rule evaluate_token_value [OF assms(1-4)
          field_value_found [OF assms(5,6)] field_value_found [OF assms(7,8)]
          field_value_found [OF assms(9,10)] field_value_found [OF assms(11,12)]
          field_value_found [OF assms(13,14)] field_value_found [OF assms(15,16)] assms(17)])
  have z: "py_truediv b (py_max (Fin 0) (Fin 1)) = Inr (fquot b (Fin 1))"
    by (simp add: py_truediv_def py_max_def fgt_def)
  have ex: "spec_score (Fin 1000) (Fin 500) (Fin 10) (Fin 5) (Fin 2000) (Fin 3)
             = round64 (27535 / 100000)"
    by code_simp
  show ?thesis
    using ev z ex py_max_one_nonzero by simp
qed

theorem evaluate_token_score_example:
  "evaluate_token example_env example_token start =
     (Inr (Some \<lparr>tokenAddress = JStr ''So1'', tokenName = JStr ''MEME'',
                 score = round64 (27535 / 100000)\<rparr>),
      emit (McapFdv (Fin 1500) (Fin 2000)) (start\<lparr>reqs := 1\<rparr>))"
proof -
  have ten: "py_float (str_float example_env) (JInt 10) = Inr (Fin 10)"
    by code_simp
  have five: "py_float (str_float example_env) (JInt 5) = Inr (Fin 5)"
    by code_simp
  have h: "lookup_path example_token [''tokenAddress''] = Found (JStr ''So1'')"
    "session example_env (reqs start) (TOKEN_DETAILS_URL (JStr ''So1''))
       = \<lparr>status = 200, body = JObj [(''pairs'', JArr [example_pair])]\<rparr>"
    "lookup_path (JObj [(''pairs'', JArr [example_pair])]) [''pairs''] = Found (JArr (example_pair # []))"
    "lookup_path example_pair [''baseToken'', ''symbol''] = Found (JStr ''MEME'')"
    "lookup_path example_pair [''liquidity'', ''usd''] = Found (JFloat (Fin 1000))"
    "py_float (str_float example_env) (JFloat (Fin 1000)) = Inr (Fin 1000)"
    "lookup_path example_pair [''volume'', ''h24''] = Found (JFloat (Fin 500))"
    "py_float (str_float example_env) (JFloat (Fin 500)) = Inr (Fin 500)"
    "lookup_path example_pair [''txns'', ''h24'', ''buys''] = Found (JInt 10)"
    "lookup_path example_pair [''txns'', ''h24'', ''sells''] = Found (JInt 5)"
    "lookup_path example_pair [''fdv''] = Found (JFloat (Fin 2000))"
    "py_float (str_float example_env) (JFloat (Fin 2000)) = Inr (Fin 2000)"
    "lookup_path example_pair [''priceChange'', ''h24''] = Found (JFloat (Fin 3))"
    "py_float (str_float example_env) (JFloat (Fin 3)) = Inr (Fin 3)"
    "field_value (str_float example_env) example_pair [''marketCap''] (Fin 2000) = Some (Fin 1500)"
    by (simp_all add: example_token_def example_env_def example_pair_def field_value_def)
  show ?thesis
    using evaluate_token_score_formula [OF h(1-6) h(7,8) h(9) ten h(10) five h(11-15)]
    by (simp add: start_def)
qed

section \<open>The sell rule of the monitor\<close>

text \<open>
  C2: in every state of the monitor in which a position is held at boughtPrice, a pass
  whose price fetch succeeds sells if and only if price <= boughtPrice * 0.95 or
  price >= boughtPrice * 1.10; it then adds (price - boughtPrice) * unitsHeld to the
  cash balance and the monitor returns, and otherwise the loop goes on with the
  position unchanged. With boughtPrice = 100 the price 94 triggers a sell, 109 does
  not, and 111 does.
\<close>

theorem monitor_sell_rule:
  assumes "buy_price pos = Some bp" and "observation ev token (reqs st) = Some (name, price)"
  shows "monitor_step ev token (pos, st) =
           (if fle price (fmul bp SELL_DROP_THRESHOLD) \<or> fge price (fmul bp SELL_GAIN_THRESHOLD)
            then
              Return (pos\<lparr>current_balance :=
                            fadd (current_balance pos) (fmul (fsub price bp) (purchased_amount pos))\<rparr>,
                      emit (Sold name price (fmul (fsub price bp) (purchased_amount pos))
                              (fless (fmul (fsub price bp) (purchased_amount pos)) (Fin 0)))
                        (emit (Monitoring name price) (st\<lparr>reqs := Suc (reqs st)\<rparr>)))
            else
              Again (pos, (emit (Monitoring name price) (st\<lparr>reqs := Suc (reqs st)\<rparr>))
                            \<lparr>slept := slept st + FETCH_INTERVAL\<rparr>))
         \<and> (fle price (fmul bp SELL_DROP_THRESHOLD) \<or> fge price (fmul bp SELL_GAIN_THRESHOLD) \<longrightarrow>
              returned (monitor_loop (Suc n) ev token (pos, st)))
         \<and> SELL_DROP_THRESHOLD = round64 (95 / 100) \<and> SELL_GAIN_THRESHOLD = round64 (110 / 100)
         \<and> sell_now (Fin 94) (Fin 100) \<and> \<not> sell_now (Fin 109) (Fin 100)
         \<and> sell_now (Fin 111) (Fin 100)"
proof -
  have ex: "sell_now (Fin 94) (Fin 100) \<and> \<not> sell_now (Fin 109) (Fin 100)
         \<and> sell_now (Fin 111) (Fin 100)"
    by code_simp
  show ?thesis
    using monitor_step_held [OF assms] ex
    by (simp add: sell_now_def SELL_DROP_THRESHOLD_def SELL_GAIN_THRESHOLD_def)
qed

theorem monitor_sell_rule_example:
  "monitor_step (price_env (\<lambda>n. Fin 94)) example_token
     (\<lparr>buy_price = Some (Fin 100), purchased_amount = Fin 2, current_balance = Fin 200\<rparr>, start)
   = Return (\<lparr>buy_price = Some (Fin 100), purchased_amount = Fin 2, current_balance = Fin 188\<rparr>,
             \<lparr>reqs = 1,
              out = [Monitoring (JStr ''MEME'') (Fin 94),
                     Sold (JStr ''MEME'') (Fin 94) (Fin (- 12)) True],
              slept = 0\<rparr>)
   \<and> returned (monitor_loop (Suc 0) (price_env (\<lambda>n. Fin 94)) example_token
        (\<lparr>buy_price = Some (Fin 100), purchased_amount = Fin 2, current_balance = Fin 200\<rparr>, start))"
proof -
  have h: "buy_price \<lparr>buy_price = Some (Fin 100), purchased_amount = Fin 2,
                       current_balance = Fin 200\<rparr> = Some (Fin 100)"
    by simp
  have o: "observation (price_env (\<lambda>n. Fin 94)) example_token (reqs start)
             = Some (JStr ''MEME'', Fin 94)"
    by (simp add: observation_def price_env_def example_token_def TOKEN_DETAILS_URL_def)
  have c: "fle (Fin 94) (fmul (Fin 100) SELL_DROP_THRESHOLD)"
    by code_simp
  have p: "fmul (fsub (Fin 94) (Fin 100)) (Fin 2) = Fin (- 12)"
    by code_simp
  have b: "round64 188 = Fin 188"
    by code_simp
  show ?thesis
    using monitor_sell_rule [OF h o, of 0] c
    by (simp add: p b emit_def start_def)
qed

section \<open>Errors during the evaluation of a token\<close>

text \<open>
  C3, as the code has it: for every token that is a JSON object, a KeyError, TypeError,
  ValueError or ZeroDivisionError raised during its evaluation (a missing key, a value
  that cannot be subscripted, a value that is not a number) is caught and logged in
  evaluate_token, yields no result, and the remaining tokens are still evaluated. The
  exception of a fetch with a status other than 200 is a plain Exception: it is not
  caught, leaves evaluate_token and ends the loop over the tokens.
\<close>

theorem evaluate_token_error_handling:
  assumes "token = JObj kvs"
  shows "(\<forall>e st'. evaluate_try ev token st = (Inl e, st')
              \<and> (e = KeyError \<or> e = TypeError \<or> e = ValueError \<or> e = ZeroDivisionError) \<longrightarrow>
            evaluate_token ev token st =
              (Inr None,
               emit (ErrorEvaluating
                       (case map_of kvs ''tokenAddress'' of None \<Rightarrow> JNull | Some a \<Rightarrow> a) e) st')
            \<and> evaluate_all ev (token # rest) acc st =
                evaluate_all ev rest acc
                  (emit (ErrorEvaluating
                       (case map_of kvs ''tokenAddress'' of None \<Rightarrow> JNull | Some a \<Rightarrow> a) e) st'))
       \<and> (\<forall>addr c. map_of kvs ''tokenAddress'' = Some addr
              \<and> status (session ev (reqs st) (TOKEN_DETAILS_URL addr)) = c \<and> c \<noteq> 200 \<longrightarrow>
            evaluate_token ev token st = (Inl (FetchFailed c), st\<lparr>reqs := Suc (reqs st)\<rparr>)
            \<and> evaluate_all ev (token # rest) acc st =
                (Inl (FetchFailed c), st\<lparr>reqs := Suc (reqs st)\<rparr>))"
proof (intro conjI allI impI)
  fix e st'
  assume a: "evaluate_try ev token st = (Inl e, st')
      \<and> (e = KeyError \<or> e = TypeError \<or> e = ValueError \<or> e = ZeroDivisionError)"
  then have c: "caught e"
    by (auto simp: caught_def)
  from a assms have t: "evaluate_try ev (JObj kvs) st = (Inl e, st')"
    by simp
  show "evaluate_token ev token st =
              (Inr None,
               emit (ErrorEvaluating
                       (case map_of kvs ''tokenAddress'' of None \<Rightarrow> JNull | Some a \<Rightarrow> a) e) st')"
    using evaluate_token_caught [OF t c] assms by simp
  then show "evaluate_all ev (token # rest) acc st =
                evaluate_all ev rest acc
                  (emit (ErrorEvaluating
                       (case map_of kvs ''tokenAddress'' of None \<Rightarrow> JNull | Some a \<Rightarrow> a) e) st')"
    by simp
next
  fix addr c
  assume a: "map_of kvs ''tokenAddress'' = Some addr
      \<and> status (session ev (reqs st) (TOKEN_DETAILS_URL addr)) = c \<and> c \<noteq> 200"
  then have t: "evaluate_try ev (JObj kvs) st = (Inl (FetchFailed c), st\<lparr>reqs := Suc (reqs st)\<rparr>)"
    by (simp add: evaluate_try_fetch_failed)
  show "evaluate_token ev token st = (Inl (FetchFailed c), st\<lparr>reqs := Suc (reqs st)\<rparr>)"
    using evaluate_token_uncaught [OF t not_caught_fetch] assms by simp
  then show "evaluate_all ev (token # rest) acc st =
                (Inl (FetchFailed c), st\<lparr>reqs := Suc (reqs st)\<rparr>)"
    by simp
qed


theorem evaluate_token_error_handling_example:
  "evaluate_token garbled_env example_token start =
     (Inr None, emit (ErrorEvaluating (JStr ''So1'') ValueError) (start\<lparr>reqs := 1\<rparr>))
   \<and> evaluate_all garbled_env [example_token, second_token] [] start =
       evaluate_all garbled_env [second_token] []
         (emit (ErrorEvaluating (JStr ''So1'') ValueError) (start\<lparr>reqs := 1\<rparr>))
   \<and> evaluate_token failing_env example_token start =
       (Inl (FetchFailed 500), start\<lparr>reqs := 1\<rparr>)
   \<and> evaluate_all failing_env [example_token, second_token] [] start =
       (Inl (FetchFailed 500), start\<lparr>reqs := 1\<rparr>)"
proof -
  have tok: "example_token = JObj [(''tokenAddress'', JStr ''So1'')]"
    by (simp add: example_token_def)
  have t: "evaluate_try garbled_env example_token start = (Inl ValueError, start\<lparr>reqs := 1\<rparr>)"
    by code_simp
  have f: "map_of [(''tokenAddress'', JStr ''So1'')] ''tokenAddress'' = Some (JStr ''So1'')
      \<and> status (session failing_env (reqs start) (TOKEN_DETAILS_URL (JStr ''So1''))) = 500
      \<and> (500::int) \<noteq> 200"
    by (simp add: failing_env_def TOKEN_DETAILS_URL_def)
  from evaluate_token_error_handling [OF tok, of garbled_env start "[second_token]" "[]"] t
  have 1: "evaluate_token garbled_env example_token start =
     (Inr None, emit (ErrorEvaluating (JStr ''So1'') ValueError) (start\<lparr>reqs := 1\<rparr>))
   \<and> evaluate_all garbled_env [example_token, second_token] [] start =
       evaluate_all garbled_env [second_token] []
         (emit (ErrorEvaluating (JStr ''So1'') ValueError) (start\<lparr>reqs := 1\<rparr>))"
    by simp
  from evaluate_token_error_handling [OF tok, of failing_env start "[second_token]" "[]"] f
  have 2: "evaluate_token failing_env example_token start =
       (Inl (FetchFailed 500), start\<lparr>reqs := 1\<rparr>)
   \<and> evaluate_all failing_env [example_token, second_token] [] start =
       (Inl (FetchFailed 500), start\<lparr>reqs := 1\<rparr>)"
    by (simp add: start_def)
  from 1 2 show ?thesis
    by simp
qed

text \<open>
  C3 as stated fails on a fetch failure: when the server answers the request for the
  details of the first of two sampled tokens with status 500, the exception leaves
  \<open>main\<close>; nothing is logged and the second token is never requested.
\<close>

theorem fetch_failure_aborts_run:
  "main 0 failing_env = Some (Inl (FetchFailed 500), \<lparr>reqs = 2, out = [], slept = 0\<rparr>)"
  by code_simp

section \<open>The defaults of the extraction\<close>

text \<open>
  C4: for every pair each of whose fields is absent or converts to a number, the
  extraction returns without raising, and an absent field has its default: liquidity
  (pair.liquidity.usd) 0, volume24h 0, buys24h and sells24h 0, fdv 1, priceChange24h 0,
  and marketCap the value of fdv, defaulted or not.
\<close>

theorem extract_fields_defaults:
  assumes "field_value pf pair [''liquidity'', ''usd''] (Fin 0) = Some l"
    and "field_value pf pair [''volume'', ''h24''] (Fin 0) = Some v"
    and "field_value pf pair [''txns'', ''h24'', ''buys''] (Fin 0) = Some b"
    and "field_value pf pair [''txns'', ''h24'', ''sells''] (Fin 0) = Some s"
    and "field_value pf pair [''fdv''] (Fin 1) = Some f"
    and "field_value pf pair [''priceChange'', ''h24''] (Fin 0) = Some p"
    and "field_value pf pair [''marketCap''] f = Some m"
  shows "extract_fields pf pair =
           Inr \<lparr>liquidity = l, volume_24h = v, buys_24h = b, sells_24h = s,
                buy_sell_ratio = fquot b (py_max s (Fin 1)), fdv = f,
                price_change_24h = p, market_cap = m\<rparr>
         \<and> (lookup_path pair [''liquidity'', ''usd''] = Absent \<longrightarrow> l = Fin 0)
         \<and> (lookup_path pair [''volume'', ''h24''] = Absent \<longrightarrow> v = Fin 0)
         \<and> (lookup_path pair [''txns'', ''h24'', ''buys''] = Absent \<longrightarrow> b = Fin 0)
         \<and> (lookup_path pair [''txns'', ''h24'', ''sells''] = Absent \<longrightarrow> s = Fin 0)
         \<and> (lookup_path pair [''fdv''] = Absent \<longrightarrow> f = Fin 1)
         \<and> (lookup_path pair [''priceChange'', ''h24''] = Absent \<longrightarrow> p = Fin 0)
         \<and> (lookup_path pair [''marketCap''] = Absent \<longrightarrow> m = f)"
  using extract_fields_value [OF assms] assms
  by (simp add: field_value_absent)

theorem extract_fields_defaults_example:
  "extract_fields (\<lambda>s. None) (JObj []) =
     Inr \<lparr>liquidity = Fin 0, volume_24h = Fin 0, buys_24h = Fin 0, sells_24h = Fin 0,
          buy_sell_ratio = Fin 0, fdv = Fin 1, price_change_24h = Fin 0, market_cap = Fin 1\<rparr>
   \<and> extract_fields (\<lambda>s. None) (JObj [(''fdv'', JFloat (Fin 2000))]) =
     Inr \<lparr>liquidity = Fin 0, volume_24h = Fin 0, buys_24h = Fin 0, sells_24h = Fin 0,
          buy_sell_ratio = Fin 0, fdv = Fin 2000, price_change_24h = Fin 0,
          market_cap = Fin 2000\<rparr>"
proof -
  have a: "field_value (\<lambda>s. None) (JObj []) (k # ks) d = Some d" for k ks d
    by (simp add: field_value_def)
  have r: "fquot (Fin 0) (py_max (Fin 0) (Fin 1)) = Fin 0"
    by (simp add: py_max_def fgt_def)
  have b: "field_value (\<lambda>s. None) (JObj [(''fdv'', JFloat (Fin 2000))]) [''fdv''] (Fin 1)
             = Some (Fin 2000)"
    "field_value (\<lambda>s. None) (JObj [(''fdv'', JFloat (Fin 2000))]) [''liquidity'', ''usd''] (Fin 0)
             = Some (Fin 0)"
    "field_value (\<lambda>s. None) (JObj [(''fdv'', JFloat (Fin 2000))]) [''volume'', ''h24''] (Fin 0)
             = Some (Fin 0)"
    "field_value (\<lambda>s. None) (JObj [(''fdv'', JFloat (Fin 2000))]) [''txns'', ''h24'', ''buys'']
             (Fin 0) = Some (Fin 0)"
    "field_value (\<lambda>s. None) (JObj [(''fdv'', JFloat (Fin 2000))]) [''txns'', ''h24'', ''sells'']
             (Fin 0) = Some (Fin 0)"
    "field_value (\<lambda>s. None) (JObj [(''fdv'', JFloat (Fin 2000))]) [''priceChange'', ''h24'']
             (Fin 0) = Some (Fin 0)"
    "field_value (\<lambda>s. None) (JObj [(''fdv'', JFloat (Fin 2000))]) [''marketCap''] (Fin 2000)
             = Some (Fin 2000)"
    by (simp_all add: field_value_def)
  show ?thesis
    using extract_fields_defaults [OF a a a a a a a]
      extract_fields_defaults [OF b(2) b(3) b(4) b(5) b(1) b(6) b(7)] r
    by simp
qed

section \<open>The selection of the best token\<close>

text \<open>
  C5, as the code has it: for every non-empty sequence of evaluated tokens none of whose
  scores is NaN, the selection returns an element with the maximum score, the first one
  in the sequence among those that share it; for the scores 0.1, 0.5 and 0.3 it returns
  the entry with 0.5.
\<close>

theorem max_by_score_stable:
  assumes "xs \<noteq> []" and "\<forall>x \<in> set xs. score x \<noteq> NaN"
  shows "(\<exists>k. max_by_score xs = Inr (xs ! k) \<and> stable_max_at xs k)
         \<and> max_by_score [entry ''A'' (round64 (1 / 10)), entry ''B'' (round64 (5 / 10)),
                          entry ''C'' (round64 (3 / 10))]
             = Inr (entry ''B'' (round64 (5 / 10)))"
proof -
  from assms(1) obtain x rest where xs: "xs = x # rest"
    by (cases xs) auto
  have "stable_max_at [x] 0"
    using assms(2) xs by (simp add: stable_max_single)
  from max_loop_stable [OF this, of x rest] assms(2) xs
  have 1: "\<exists>k. max_by_score xs = Inr (xs ! k) \<and> stable_max_at xs k"
    by (simp add: max_by_score_def)
  have 2: "max_by_score [entry ''A'' (round64 (1 / 10)), entry ''B'' (round64 (5 / 10)),
                          entry ''C'' (round64 (3 / 10))]
             = Inr (entry ''B'' (round64 (5 / 10)))"
    by code_simp
  from 1 2 show ?thesis
    by simp
qed

theorem max_by_score_stable_example:
  "(\<exists>k. max_by_score [entry ''A'' (Fin 1), entry ''B'' (Fin 2), entry ''C'' (Fin 2)]
           = Inr ([entry ''A'' (Fin 1), entry ''B'' (Fin 2), entry ''C'' (Fin 2)] ! k)
         \<and> stable_max_at [entry ''A'' (Fin 1), entry ''B'' (Fin 2), entry ''C'' (Fin 2)] k)
   \<and> max_by_score [entry ''A'' (Fin 1), entry ''B'' (Fin 2), entry ''C'' (Fin 2)]
       = Inr (entry ''B'' (Fin 2))"
proof -
  have a: "[entry ''A'' (Fin 1), entry ''B'' (Fin 2), entry ''C'' (Fin 2)] \<noteq> []"
    by simp
  have b: "\<forall>x \<in> set [entry ''A'' (Fin 1), entry ''B'' (Fin 2), entry ''C'' (Fin 2)]. score x \<noteq> NaN"
    by (simp add: entry_def)
  have c: "max_by_score [entry ''A'' (Fin 1), entry ''B'' (Fin 2), entry ''C'' (Fin 2)]
     = Inr (entry ''B'' (Fin 2))"
    by (simp add: max_by_score_def entry_def fgt_def)
  from max_by_score_stable [OF a b] c show ?thesis
    by blast
qed

text \<open>
  C5 as stated fails when a score is NaN: every comparison with NaN is false, so a
  first entry with the score NaN is kept although the second has the score 0.5.
\<close>

theorem max_by_score_nan:
  "max_by_score [entry ''A'' NaN, entry ''B'' (Fin (1 / 2))] = Inr (entry ''A'' NaN)
   \<and> \<not> fle (score (entry ''B'' (Fin (1 / 2)))) (score (entry ''A'' NaN))
   \<and> fst (evaluate_token nan_env example_token start)
       = Inr (Some \<lparr>tokenAddress = JStr ''So1'', tokenName = JStr ''MEME'', score = NaN\<rparr>)"
proof -
  have "fst (evaluate_token nan_env example_token start)
       = Inr (Some \<lparr>tokenAddress = JStr ''So1'', tokenName = JStr ''MEME'', score = NaN\<rparr>)"
    by code_simp
  then show ?thesis
    by (simp add: max_by_score_def entry_def fgt_def fle_def)
qed

section \<open>One buy and one sell at most\<close>

text \<open>
  C6, as the code has it: in every run of the position monitor the Position goes from
  buy to sell at most once. The buy happens at most once, and only in the first pass,
  when its fetch succeeds with a price other than zero: it records boughtPrice = price
  and unitsHeld = cashBalance / boughtPrice. The sell happens at most once, only after
  the buy, and it is the last thing the monitor does before it returns.
\<close>

theorem monitor_buys_and_sells_at_most_once:
  "\<exists>new. out (snd (reached (monitor_loop n ev token (initial_position, st)))) = out st @ new
     \<and> length (filter is_bought new) \<le> 1
     \<and> length (filter is_sold new) \<le> 1
     \<and> (\<forall>e \<in> set (butlast new). \<not> is_sold e)
     \<and> ((\<exists>e \<in> set new. is_sold e) \<longrightarrow>
           returned (monitor_loop n ev token (initial_position, st))
           \<and> (\<exists>e \<in> set new. is_bought e))
     \<and> ((\<exists>e \<in> set new. is_bought e) \<longrightarrow>
           (\<exists>name price rest.
              observation ev token (reqs st) = Some (name, price) \<and> price \<noteq> Fin 0
              \<and> new = Monitoring name price # Bought name price # rest
              \<and> buy_price (fst (reached (monitor_loop n ev token (initial_position, st))))
                  = Some price
              \<and> purchased_amount (fst (reached (monitor_loop n ev token (initial_position, st))))
                  = fquot INITIAL_BALANCE price))"
proof (cases n)
  case 0
  then show ?thesis by simp
next
  case (Suc m)
  have bn: "buy_price initial_position = None"
    by (simp add: initial_position_def)
  show ?thesis
  proof (cases "observation ev token (reqs st)")
    case None
    from monitor_step_unobserved [OF None, of initial_position] obtain e st1 where
      "monitor_step ev token (initial_position, st)
         = Return (initial_position, emit (ErrorMonitoring e) st1)"
      "out st1 = out st"
      by blast
    then have "out (snd (reached (monitor_loop n ev token (initial_position, st))))
                 = out st @ [ErrorMonitoring e]"
      using Suc by (simp add: emit_def)
    then show ?thesis
      by (intro exI [of _ "[ErrorMonitoring e]"]) simp
  next
    case (Some np)
    obtain name price where np: "np = (name, price)"
      by (cases np)
    note ob = Some [unfolded np]
    show ?thesis
    proof (cases "price = Fin 0")
      case True
      from monitor_step_first_zero [OF bn ob [unfolded True]]
      have "out (snd (reached (monitor_loop n ev token (initial_position, st))))
                 = out st @ [Monitoring name (Fin 0), ErrorMonitoring ZeroDivisionError]"
        using Suc by (simp add: emit_def)
      then show ?thesis
        by (intro exI [of _ "[Monitoring name (Fin 0), ErrorMonitoring ZeroDivisionError]"]) simp
    next
      case False
      note step = monitor_step_first [OF bn ob False]
      have cb: "current_balance initial_position = INITIAL_BALANCE"
        by (simp add: initial_position_def)
      show ?thesis
      proof (cases "sell_now price price")
        case True
        define profit where
          "profit = fmul (fsub price price) (fquot INITIAL_BALANCE price)"
        from step True
        have r: "monitor_loop n ev token (initial_position, st) =
              Return (initial_position\<lparr>buy_price := Some price,
                          purchased_amount := fquot INITIAL_BALANCE price,
                          current_balance := fadd INITIAL_BALANCE profit\<rparr>,
                      emit (Sold name price profit (fless profit (Fin 0)))
                        (emit (Bought name price)
                           (emit (Monitoring name price) (st\<lparr>reqs := Suc (reqs st)\<rparr>))))"
          using Suc by (simp add: cb profit_def)
        show ?thesis
          unfolding r
          by (intro exI [of _ "[Monitoring name price, Bought name price,
                                Sold name price profit (fless profit (Fin 0))]"])
             (simp add: emit_def ob False)
      next
        case nosell: False
        define pos1 where "pos1 = initial_position\<lparr>buy_price := Some price,
                         purchased_amount := fquot INITIAL_BALANCE price\<rparr>"
        define st1 where "st1 = (emit (Bought name price)
                        (emit (Monitoring name price) (st\<lparr>reqs := Suc (reqs st)\<rparr>)))
                       \<lparr>slept := slept st + FETCH_INTERVAL\<rparr>"
        define L where "L = monitor_loop m ev token (pos1, st1)"
        have r: "monitor_loop n ev token (initial_position, st) = L"
          using step nosell Suc by (simp add: cb pos1_def st1_def L_def)
        have b1: "buy_price pos1 = Some price" and p1: "purchased_amount pos1 = fquot INITIAL_BALANCE price"
          by (simp_all add: pos1_def)
        have o1: "out st1 = out st @ [Monitoring name price, Bought name price]"
          by (simp add: st1_def emit_def)
        from held_loop_events [OF b1, of m ev token st1] obtain new where
          n: "out (snd (reached L)) = out st1 @ new"
          "\<forall>e \<in> set new. \<not> is_bought e"
          "\<forall>e \<in> set (butlast new). \<not> is_sold e"
          "(\<exists>e \<in> set new. is_sold e) \<longrightarrow> returned L"
          "buy_price (fst (reached L)) = Some price"
          "purchased_amount (fst (reached L)) = purchased_amount pos1"
          unfolding L_def by blast
        define all where "all = Monitoring name price # Bought name price # new"
        have 1: "out (snd (reached L)) = out st @ all"
          using n(1) o1 by (simp add: all_def)
        have 2: "length (filter is_bought all) \<le> 1"
          using n(2) by (simp add: all_def filter_empty_conv [THEN iffD2])
        have 4: "\<forall>e \<in> set (butlast all). \<not> is_sold e"
          using n(3) by (simp add: all_def)
        have 3: "length (filter is_sold all) \<le> 1"
          by (rule filter_butlast_le1 [OF 4])
        have 5: "(\<exists>e \<in> set all. is_sold e) \<longrightarrow> returned L \<and> (\<exists>e \<in> set all. is_bought e)"
          using n(4) by (simp add: all_def)
        have 6: "\<exists>name' price' rest.
              observation ev token (reqs st) = Some (name', price') \<and> price' \<noteq> Fin 0
              \<and> all = Monitoring name' price' # Bought name' price' # rest
              \<and> buy_price (fst (reached L)) = Some price'
              \<and> purchased_amount (fst (reached L)) = fquot INITIAL_BALANCE price'"
          using ob False n(5,6) p1 by (simp add: all_def)
        show ?thesis
          unfolding r using 1 2 3 4 5 6 by blast
      qed
    qed
  qed
qed


theorem monitor_buys_and_sells_example:
  "out (snd (reached (monitor_loop 2 rising_env example_token (initial_position, start))))
     = [Monitoring (JStr ''MEME'') (Fin 100), Bought (JStr ''MEME'') (Fin 100),
        Monitoring (JStr ''MEME'') (Fin 120), Sold (JStr ''MEME'') (Fin 120) (Fin 40) False]
   \<and> returned (monitor_loop 2 rising_env example_token (initial_position, start))
   \<and> buy_price (fst (reached (monitor_loop 2 rising_env example_token (initial_position, start))))
       = Some (Fin 100)
   \<and> purchased_amount
        (fst (reached (monitor_loop 2 rising_env example_token (initial_position, start))))
       = fquot INITIAL_BALANCE (Fin 100)"
proof -
  define L where "L = monitor_loop 2 rising_env example_token (initial_position, start)"
  have o: "out (snd (reached L))
     = [Monitoring (JStr ''MEME'') (Fin 100), Bought (JStr ''MEME'') (Fin 100),
        Monitoring (JStr ''MEME'') (Fin 120), Sold (JStr ''MEME'') (Fin 120) (Fin 40) False]"
    unfolding L_def by code_simp
  from monitor_buys_and_sells_at_most_once [of 2 rising_env example_token start]
  obtain new where n: "out (snd (reached L)) = out start @ new"
    "(\<exists>e \<in> set new. is_sold e) \<longrightarrow> returned L \<and> (\<exists>e \<in> set new. is_bought e)"
    "(\<exists>e \<in> set new. is_bought e) \<longrightarrow>
           (\<exists>name price rest.
              observation rising_env example_token (reqs start) = Some (name, price)
              \<and> price \<noteq> Fin 0
              \<and> new = Monitoring name price # Bought name price # rest
              \<and> buy_price (fst (reached L)) = Some price
              \<and> purchased_amount (fst (reached L)) = fquot INITIAL_BALANCE price)"
    unfolding L_def by blast
  from n(1) o have new: "new = [Monitoring (JStr ''MEME'') (Fin 100), Bought (JStr ''MEME'') (Fin 100),
        Monitoring (JStr ''MEME'') (Fin 120), Sold (JStr ''MEME'') (Fin 120) (Fin 40) False]"
    by (simp add: start_def)
  from n(2) new have r: "returned L"
    by simp
  from n(3) new have "buy_price (fst (reached L)) = Some (Fin 100)
      \<and> purchased_amount (fst (reached L)) = fquot INITIAL_BALANCE (Fin 100)"
    by auto
  with o r show ?thesis
    unfolding L_def by simp
qed

text \<open>
  C6 as stated fails on a run whose first fetch fails: the monitor logs the error and
  returns after that single request, with nothing bought and nothing sold.
\<close>

theorem monitor_without_buy_or_sell:
  "monitor_token 1 failing_env example_token start =
     Some (initial_position,
           \<lparr>reqs = 1, out = [ErrorMonitoring (FetchFailed 500)], slept = 0\<rparr>)"
  by code_simp

section \<open>A run with no valid token\<close>

text \<open>
  C7: when the tokens are sampled and none of them evaluates to a result, the run
  prints "No valid tokens found." and returns without an exception, whatever the bound
  on the passes of the monitor: nothing is selected, no line of the selection is
  printed and no request of the monitor is made.
\<close>

theorem main_no_valid_tokens:
  assumes "get_random_tokens ev start = (Inr random_tokens, st)"
    and "evaluate_all ev random_tokens [] st = (Inr [], st1)"
  shows "main n ev = Some (Inr (), st1\<lparr>out := out st1 @ [NoValidTokens]\<rparr>)"
  using assms by (simp add: main_def emit_def)

theorem main_no_valid_tokens_example:
  "main 0 pairless_env =
     Some (Inr (),
           \<lparr>reqs = 3,
            out = [NoPairsData (JStr ''So1''), NoPairsData (JStr ''So2''), NoValidTokens],
            slept = 0\<rparr>)"
proof -
  have g: "get_random_tokens pairless_env start
             = (Inr [example_token, second_token], \<lparr>reqs = 1, out = [], slept = 0\<rparr>)"
    by code_simp
  have e: "evaluate_all pairless_env [example_token, second_token] []
             \<lparr>reqs = 1, out = [], slept = 0\<rparr>
           = (Inr [], \<lparr>reqs = 3,
                       out = [NoPairsData (JStr ''So1''), NoPairsData (JStr ''So2'')],
                       slept = 0\<rparr>)"
    by code_simp
  show ?thesis
    using main_no_valid_tokens [OF g e, of 0] by simp
qed

section \<open>The sample of tokens\<close>

text \<open>
  C8: given the body of the listing response, the sampler raises if and only if the
  body is not a list, with the exception of the unexpected format, which leaves main
  and ends the run. On a list it never raises, also on one with fewer than 15
  elements: it returns the elements at the positions that random.sample draws from the
  whole list for a sample of min(len(list), 15), which are exactly that many, distinct
  (without replacement) and inside the list.
\<close>

theorem sample_tokens_contract:
  assumes "draws_ok (draw ev)"
    and "session ev (reqs start) TOKEN_LIST_URL = \<lparr>status = 200, body = data\<rparr>"
  shows "((\<exists>e. fst (get_random_tokens ev start) = Inl e) \<longleftrightarrow> (\<forall>xs. data \<noteq> JArr xs))
       \<and> ((\<forall>xs. data \<noteq> JArr xs) \<longrightarrow>
            fst (get_random_tokens ev start) = Inl UnexpectedFormat
            \<and> main n ev = Some (Inl UnexpectedFormat, start\<lparr>reqs := Suc 0\<rparr>))
       \<and> (\<forall>xs. data = JArr xs \<longrightarrow>
            fst (get_random_tokens ev start)
              = Inr (map (\<lambda>i. xs ! i) (draw ev (length xs) (min (length xs) 15)))
            \<and> length (draw ev (length xs) (min (length xs) 15)) = min (length xs) 15
            \<and> distinct (draw ev (length xs) (min (length xs) 15))
            \<and> (\<forall>i \<in> set (draw ev (length xs) (min (length xs) 15)). i < length xs))"
proof -
  note g = get_random_tokens_ok [OF assms(2)]
  have r0: "reqs start = 0"
    by (simp add: start_def)
  have 1: "fst (get_random_tokens ev start) = Inl UnexpectedFormat
            \<and> main n ev = Some (Inl UnexpectedFormat, start\<lparr>reqs := Suc 0\<rparr>)"
    if "\<forall>xs. data \<noteq> JArr xs"
    using sample_tokens_other [OF that] g by (simp add: main_def r0)
  have 2: "fst (get_random_tokens ev start)
              = Inr (map (\<lambda>i. xs ! i) (draw ev (length xs) (min (length xs) 15)))
            \<and> length (draw ev (length xs) (min (length xs) 15)) = min (length xs) 15
            \<and> distinct (draw ev (length xs) (min (length xs) 15))
            \<and> (\<forall>i \<in> set (draw ev (length xs) (min (length xs) 15)). i < length xs)"
    if "data = JArr xs" for xs
  proof -
    have "min (length xs) 15 \<le> length xs"
      by simp
    with assms(1) have "length (draw ev (length xs) (min (length xs) 15)) = min (length xs) 15
            \<and> distinct (draw ev (length xs) (min (length xs) 15))
            \<and> (\<forall>i \<in> set (draw ev (length xs) (min (length xs) 15)). i < length xs)"
      unfolding draws_ok_def by blast
    then show ?thesis
      using g that by (simp add: sample_tokens_list)
  qed
  have 3: "(\<exists>e. fst (get_random_tokens ev start) = Inl e) \<longleftrightarrow> (\<forall>xs. data \<noteq> JArr xs)"
  proof
    assume "\<exists>e. fst (get_random_tokens ev start) = Inl e"
    then show "\<forall>xs. data \<noteq> JArr xs"
      using 2 by auto
  next
    assume "\<forall>xs. data \<noteq> JArr xs"
    then show "\<exists>e. fst (get_random_tokens ev start) = Inl e"
      using 1 by blast
  qed
  from 1 2 3 show ?thesis
    by blast
qed

theorem sample_tokens_contract_example:
  "main 0 (listing_env (JObj [(''tokens'', JArr [])]))
     = Some (Inl UnexpectedFormat, start\<lparr>reqs := Suc 0\<rparr>)
   \<and> fst (get_random_tokens (listing_env (JArr [example_token, second_token])) start)
       = Inr [example_token, second_token]
   \<and> fst (get_random_tokens (listing_env (JArr (map JInt [1..17]))) start)
       = Inr (map JInt [1..15])"
proof -
  have d: "draws_ok (draw (listing_env data))" for data
    by (simp add: draws_ok_def listing_env_def)
  have s: "session (listing_env data) (reqs start) TOKEN_LIST_URL
             = \<lparr>status = 200, body = data\<rparr>" for data
    by (simp add: listing_env_def)
  have a: "\<forall>xs. JObj [(''tokens'', JArr [])] \<noteq> JArr xs"
    by simp
  have l: "map (\<lambda>i. [example_token, second_token] ! i)
             (draw (listing_env (JArr [example_token, second_token]))
                (length [example_token, second_token])
                (min (length [example_token, second_token]) 15))
           = [example_token, second_token]"
    by code_simp
  have m: "map (\<lambda>i. map JInt [1..17] ! i)
             (draw (listing_env (JArr (map JInt [1..17]))) (length (map JInt [1..17]))
                (min (length (map JInt [1..17])) 15))
           = map JInt [1..15]"
    by code_simp
  from sample_tokens_contract [OF d s, of "JObj [(''tokens'', JArr [])]" 0] a
  have 1: "main 0 (listing_env (JObj [(''tokens'', JArr [])]))
     = Some (Inl UnexpectedFormat, start\<lparr>reqs := Suc 0\<rparr>)"
    by blast
  from sample_tokens_contract [OF d s, of "JArr [example_token, second_token]" 0] l
  have 2: "fst (get_random_tokens (listing_env (JArr [example_token, second_token])) start)
       = Inr [example_token, second_token]"
    by simp
  from sample_tokens_contract [OF d s, of "JArr (map JInt [1..17])" 0] m
  have 3: "fst (get_random_tokens (listing_env (JArr (map JInt [1..17]))) start)
       = Inr (map JInt [1..15])"
    by simp
  from 1 2 3 show ?thesis
    by simp
qed

section \<open>The exits of the monitor loop\<close>

text \<open>
  C9: the monitor loop returns only after a sale or an exception (its last line
  printed is then the sale or the error), and for every sequence of successful price
  observations none of which satisfies a sell condition (against the price bought, the
  first one) it has not returned after any number of passes: after \<open>n\<close> passes it has
  slept \<open>n\<close> times the fetch interval, which passes the monitor duration of 60 seconds
  at the seventh pass without any effect on the loop.
\<close>

theorem monitor_exit_conditions:
  "(returned (monitor_loop n ev token (initial_position, st)) \<longrightarrow>
      out (snd (reached (monitor_loop n ev token (initial_position, st)))) \<noteq> []
      \<and> (is_sold (last (out (snd (reached (monitor_loop n ev token (initial_position, st))))))
         \<or> is_monitor_error
              (last (out (snd (reached (monitor_loop n ev token (initial_position, st))))))))
   \<and> ((\<forall>k. observation ev token (reqs st + k) = Some (names k, prices k))
        \<and> (\<forall>k. \<not> sell_now (prices k) (prices 0)) \<longrightarrow>
       monitor_token n ev token st = None
       \<and> slept (snd (reached (monitor_loop n ev token (initial_position, st))))
           = slept st + n * FETCH_INTERVAL)
   \<and> MONITOR_DURATION < 7 * FETCH_INTERVAL"
proof (intro conjI impI)
  assume "returned (monitor_loop n ev token (initial_position, st))"
  then obtain pos' st' where r: "monitor_loop n ev token (initial_position, st) = Return (pos', st')"
    by (cases "monitor_loop n ev token (initial_position, st)") auto
  from monitor_loop_return [OF r] r
  show "out (snd (reached (monitor_loop n ev token (initial_position, st)))) \<noteq> []"
    and "is_sold (last (out (snd (reached (monitor_loop n ev token (initial_position, st))))))
         \<or> is_monitor_error
              (last (out (snd (reached (monitor_loop n ev token (initial_position, st))))))"
    by simp_all
next
  assume a: "(\<forall>k. observation ev token (reqs st + k) = Some (names k, prices k))
        \<and> (\<forall>k. \<not> sell_now (prices k) (prices 0))"
  from first_loop_runs [of ev token st names prices n] a obtain pos st' where
    "monitor_loop n ev token (initial_position, st) = Again (pos, st')"
    "slept st' = slept st + n * FETCH_INTERVAL"
    by blast
  then show "monitor_token n ev token st = None"
    and "slept (snd (reached (monitor_loop n ev token (initial_position, st))))
           = slept st + n * FETCH_INTERVAL"
    by (simp_all add: monitor_token_def)
next
  show "MONITOR_DURATION < 7 * FETCH_INTERVAL"
    by (simp add: MONITOR_DURATION_def FETCH_INTERVAL_def)
qed

theorem monitor_exit_conditions_example:
  "monitor_token 7 (price_env (\<lambda>n. Fin 100)) example_token start = None
   \<and> slept (snd (reached (monitor_loop 7 (price_env (\<lambda>n. Fin 100)) example_token
                            (initial_position, start)))) = 70
   \<and> returned (monitor_loop 1 failing_env example_token (initial_position, start))
   \<and> is_monitor_error
        (last (out (snd (reached (monitor_loop 1 failing_env example_token
                                    (initial_position, start))))))"
proof -
  have o: "\<forall>k. observation (price_env (\<lambda>n. Fin 100)) example_token (reqs start + k)
              = Some (JStr ''MEME'', Fin 100)"
    by (simp add: observation_def price_env_def example_token_def TOKEN_DETAILS_URL_def)
  have "\<not> sell_now (Fin 100) (Fin 100)"
    by code_simp
  then have s: "\<forall>k::nat. \<not> sell_now (Fin 100) (Fin 100)"
    by simp
  have r: "returned (monitor_loop 1 failing_env example_token (initial_position, start))"
    by code_simp
  have e: "\<not> is_sold (last (out (snd (reached (monitor_loop 1 failing_env example_token
                                    (initial_position, start))))))"
    by code_simp
  from monitor_exit_conditions
         [of 7 "price_env (\<lambda>n. Fin 100)" example_token start "\<lambda>k. JStr ''MEME''" "\<lambda>k. Fin 100"] o s
  have 1: "monitor_token 7 (price_env (\<lambda>n. Fin 100)) example_token start = None
   \<and> slept (snd (reached (monitor_loop 7 (price_env (\<lambda>n. Fin 100)) example_token
                            (initial_position, start)))) = 70"
    by (simp add: start_def FETCH_INTERVAL_def)
  from monitor_exit_conditions [of 1 failing_env example_token start] r e
  have 2: "is_monitor_error
        (last (out (snd (reached (monitor_loop 1 failing_env example_token
                                    (initial_position, start))))))"
    by blast
  from 1 2 r show ?thesis
    by simp
qed

section \<open>A first price of zero\<close>

text \<open>
  C10: if the first price that the monitor fetches is exactly 0, the monitor records
  boughtPrice = 0, the division cashBalance / boughtPrice raises ZeroDivisionError, the
  handler of the loop catches it, and the monitor returns at once: after one request,
  with no sell event, no units held and the cash balance at its initial value.
\<close>

theorem monitor_zero_price:
  assumes "observation ev token (reqs st) = Some (name, Fin 0)"
  shows "monitor_token (Suc n) ev token st =
           Some (\<lparr>buy_price = Some (Fin 0), purchased_amount = Fin 0,
                  current_balance = INITIAL_BALANCE\<rparr>,
                 st\<lparr>reqs := Suc (reqs st),
                    out := out st @ [Monitoring name (Fin 0), ErrorMonitoring ZeroDivisionError]\<rparr>)"
proof -
  have "buy_price initial_position = None"
    by (simp add: initial_position_def)
  from monitor_step_first_zero [OF this assms] show ?thesis
    by (simp add: monitor_token_def initial_position_def emit_def)
qed

theorem monitor_zero_price_example:
  "monitor_token 5 (price_env (\<lambda>n. Fin 0)) example_token start =
     Some (\<lparr>buy_price = Some (Fin 0), purchased_amount = Fin 0, current_balance = Fin 200\<rparr>,
           \<lparr>reqs = 1,
            out = [Monitoring (JStr ''MEME'') (Fin 0), ErrorMonitoring ZeroDivisionError],
            slept = 0\<rparr>)"
proof -
  have o: "observation (price_env (\<lambda>n. Fin 0)) example_token (reqs start)
             = Some (JStr ''MEME'', Fin 0)"
    by (simp add: observation_def price_env_def example_token_def TOKEN_DETAILS_URL_def)
  show ?thesis
    using monitor_zero_price [OF o, of 4]
    by (simp add: start_def INITIAL_BALANCE_def)
qed

end
